theory Spec2Isabelle
  imports Main
begin

section \<open>Python strings\<close>

text \<open>
  A Python \<open>str\<close> is modelled as a \<open>string\<close> whose characters are code points below 256;
  \<open>length\<close> is Python's \<open>len\<close>. The functions below are the \<open>str\<close> methods and
  operators that the agents use, written out on that range.
\<close>

definition py_lower_char :: "char \<Rightarrow> char" where
  \<comment> \<open>\<open>str.lower\<close> on one code point: A-Z, and the upper-case letters of Latin-1
      (0xC0-0xDE without the multiplication sign 0xD7), move up by 32.\<close>
  "py_lower_char c =
     (let n = (of_char c :: nat)
      in if (65 \<le> n \<and> n \<le> 90) \<or> (192 \<le> n \<and> n \<le> 222 \<and> n \<noteq> 215)
         then char_of (n + 32) else c)"

definition py_lower :: "string \<Rightarrow> string" where
  "py_lower s = map py_lower_char s"

definition py_isspace :: "char \<Rightarrow> bool" where
  \<comment> \<open>the code points below 256 that \<open>str.strip()\<close> removes\<close>
  "py_isspace c =
     (let n = (of_char c :: nat)
      in (9 \<le> n \<and> n \<le> 13) \<or> (28 \<le> n \<and> n \<le> 32) \<or> n = 133 \<or> n = 160)"

definition py_strip :: "string \<Rightarrow> string" where
  "py_strip s = rev (dropWhile py_isspace (rev (dropWhile py_isspace s)))"

fun py_startswith :: "string \<Rightarrow> string \<Rightarrow> bool" where
  \<comment> \<open>\<open>py_startswith p s\<close> is \<open>s.startswith(p)\<close>\<close>
  "py_startswith [] s = True"
| "py_startswith (p # ps) [] = False"
| "py_startswith (p # ps) (c # cs) = (p = c \<and> py_startswith ps cs)"

fun py_in :: "string \<Rightarrow> string \<Rightarrow> bool" where
  \<comment> \<open>\<open>py_in n h\<close> is the substring test \<open>n in h\<close>\<close>
  "py_in n [] = (n = [])"
| "py_in n (c # cs) = (py_startswith n (c # cs) \<or> py_in n cs)"

fun py_find_from :: "string \<Rightarrow> string \<Rightarrow> nat \<Rightarrow> int" where
  "py_find_from n [] i = (if n = [] then int i else - 1)"
| "py_find_from n (c # cs) i =
     (if py_startswith n (c # cs) then int i else py_find_from n cs (Suc i))"

definition py_find :: "string \<Rightarrow> string \<Rightarrow> int" where
  \<comment> \<open>\<open>py_find h n\<close> is \<open>h.find(n)\<close>: the lowest index of \<open>n\<close>, or -1\<close>
  "py_find h n = py_find_from n h 0"

fun py_rfind_from :: "string \<Rightarrow> string \<Rightarrow> nat \<Rightarrow> int \<Rightarrow> int" where
  "py_rfind_from n [] i best = (if n = [] then int i else best)"
| "py_rfind_from n (c # cs) i best =
     py_rfind_from n cs (Suc i) (if py_startswith n (c # cs) then int i else best)"

definition py_rfind :: "string \<Rightarrow> string \<Rightarrow> int" where
  \<comment> \<open>\<open>py_rfind h n\<close> is \<open>h.rfind(n)\<close>: the highest index of \<open>n\<close>, or -1\<close>
  "py_rfind h n = py_rfind_from n h 0 (- 1)"

definition py_slice :: "string \<Rightarrow> int \<Rightarrow> int \<Rightarrow> string" where
  \<comment> \<open>\<open>s[a:b]\<close>; the agents slice only where \<open>0 \<le> a < b\<close> has been tested\<close>
  "py_slice s a b = drop (nat a) (take (nat b) s)"

fun py_join :: "string \<Rightarrow> string list \<Rightarrow> string" where
  \<comment> \<open>\<open>py_join sep xs\<close> is \<open>sep.join(xs)\<close>\<close>
  "py_join sep [] = []"
| "py_join sep [x] = x"
| "py_join sep (x # y # ys) = x @ sep @ py_join sep (y # ys)"

definition truthy :: "string \<Rightarrow> bool" where
  \<comment> \<open>a \<open>str\<close> in a condition: the empty string is false\<close>
  "truthy s = (s \<noteq> [])"

definition digit_char :: "nat \<Rightarrow> char" where
  "digit_char d = char_of (48 + d)"

fun str_nat :: "nat \<Rightarrow> string" where
  \<comment> \<open>\<open>str(n)\<close> of a non-negative integer\<close>
  "str_nat n = (if n < 10 then [digit_char n] else str_nat (n div 10) @ [digit_char (n mod 10)])"

declare str_nat.simps [simp del]

definition enumerate_py :: "'a list \<Rightarrow> (nat \<times> 'a) list" where
  "enumerate_py xs = zip [0..<length xs] xs"

section \<open>Generation workers (code\_generation\_agent.py, ui\_generation\_agent.py)\<close>

text \<open>
  The completion service is opaque: a run of a worker is given an oracle that answers
  the POST of attempt \<open>i\<close> with sampling options \<open>(temperature, num_predict)\<close>.
  \<open>Responded status text\<close> is an HTTP answer; for status 200 \<open>text\<close> is
  \<open>result.get("response", "")\<close>. \<open>Raised e\<close> is any exception inside the \<open>try\<close>
  (connection refused, a body that is not JSON, ...), with \<open>e\<close> its \<open>str(e)\<close>.
  Temperatures are written in hundredths (0.1 is 10): they are only passed on.
\<close>

datatype response = Responded nat string | Raised string

type_synonym service = "nat \<Rightarrow> nat \<times> nat \<Rightarrow> response"

text \<open>
  The workers return a plain \<open>str\<close>. The model tags each \<open>return\<close> statement by its
  place in the source: \<open>Success\<close> is the return of an accepted text, \<open>Incomplete\<close> the
  return of the last attempt's rejected text, \<open>Failed\<close> the return of an error message.
  \<open>result_text\<close> is the string that the Python caller receives.
\<close>

datatype gen_result = Success string | Incomplete string | Failed string

fun result_text :: "gen_result \<Rightarrow> string" where
  "result_text (Success t) = t"
| "result_text (Incomplete t) = t"
| "result_text (Failed t) = t"

definition attempt_schedule :: "(nat \<times> nat) list" where
  "attempt_schedule = [(10, 2000), (20, 2500), (5, 3000)]"

definition format_generated_code :: "string \<Rightarrow> string" where
  \<comment> \<open>\<open>StandaloneCodeGenerationAgent._format_generated_code\<close>\<close>
  "format_generated_code code =
     (let fenced_python =
        (if py_in ''```python'' code
         then (let start = py_find code ''```python'' + 9;
                   end = py_rfind code ''```''
               in if start > 8 \<and> end > start then Some (py_strip (py_slice code start end))
                  else None)
         else None)
      in case fenced_python of
           Some r \<Rightarrow> r
         | None \<Rightarrow>
            (let fenced =
               (if py_in ''```'' code
                then (let start = py_find code ''```'' + 3;
                          end = py_rfind code ''```''
                      in if start > 2 \<and> end > start
                         then Some (py_strip (py_slice code start end)) else None)
                else None)
             in case fenced of Some r \<Rightarrow> r | None \<Rightarrow> code))"

fun generate_code_loop :: "service \<Rightarrow> (nat \<times> nat \<times> nat) list \<Rightarrow> nat \<Rightarrow> gen_result \<times> nat" where
  \<comment> \<open>the \<open>for attempt, temp in enumerate(...)\<close> loop of \<open>generate_code\<close>; the counter is
      the number of POSTs issued so far\<close>
  "generate_code_loop svc [] posts =
     (Failed ''Failed to generate code after multiple attempts'', posts)"
| "generate_code_loop svc ((attempt, temp) # rest) posts =
     (case svc attempt temp of
        Responded status text \<Rightarrow>
          if status = 200 then
            (let generated_code = py_strip text;
                 formatted_code = format_generated_code generated_code
             in if length formatted_code > 100 \<and> py_in ''import'' formatted_code
                   \<and> py_in ''def'' formatted_code
                then (Success formatted_code, Suc posts)
                else if attempt = 2 then (Incomplete formatted_code, Suc posts)
                else generate_code_loop svc rest (Suc posts))
          else if attempt = 2
            then (Failed (''Error generating code: HTTP '' @ str_nat status), Suc posts)
            else generate_code_loop svc rest (Suc posts)
      | Raised e \<Rightarrow>
          if attempt = 2 then (Failed (''Failed to generate code: '' @ e), Suc posts)
          else generate_code_loop svc rest (Suc posts))"

definition generate_code_run :: "service \<Rightarrow> gen_result \<times> nat" where
  "generate_code_run svc = generate_code_loop svc (enumerate_py attempt_schedule) 0"

definition generate_code :: "service \<Rightarrow> string" where
  \<comment> \<open>\<open>StandaloneCodeGenerationAgent.generate_code\<close>: the string returned\<close>
  "generate_code svc = result_text (fst (generate_code_run svc))"

fun ui_fenced :: "string \<Rightarrow> string list \<Rightarrow> string option" where
  \<comment> \<open>the \<open>for marker in start_markers\<close> loop of the UI worker's formatter\<close>
  "ui_fenced code [] = None"
| "ui_fenced code (marker # markers) =
     (if py_in marker code
      then (let start = py_find code marker + int (length marker);
                end = py_rfind code ''```''
            in if start > int (length marker) - 1 \<and> end > start
               then Some (py_strip (py_slice code start end))
               else ui_fenced code markers)
      else ui_fenced code markers)"

definition format_generated_ui_code :: "string \<Rightarrow> string" where
  \<comment> \<open>\<open>StandaloneUIGenerationAgent._format_generated_code\<close>\<close>
  "format_generated_ui_code code =
     (let fenced_marker =
        (if py_in ''```jsx'' code \<or> py_in ''```javascript'' code \<or> py_in ''```tsx'' code
         then ui_fenced code [''```jsx'', ''```javascript'', ''```tsx'', ''```react'']
         else None)
      in case fenced_marker of
           Some r \<Rightarrow> r
         | None \<Rightarrow>
            (let fenced =
               (if py_in ''```'' code
                then (let start = py_find code ''```'' + 3;
                          end = py_rfind code ''```''
                      in if start > 2 \<and> end > start
                         then Some (py_strip (py_slice code start end)) else None)
                else None)
             in case fenced of Some r \<Rightarrow> r | None \<Rightarrow> code))"

fun generate_ui_code_loop :: "service \<Rightarrow> (nat \<times> nat \<times> nat) list \<Rightarrow> nat \<Rightarrow> gen_result \<times> nat" where
  "generate_ui_code_loop svc [] posts =
     (Failed ''Failed to generate UI code after multiple attempts'', posts)"
| "generate_ui_code_loop svc ((attempt, temp) # rest) posts =
     (case svc attempt temp of
        Responded status text \<Rightarrow>
          if status = 200 then
            (let generated_code = py_strip text;
                 formatted_code = format_generated_ui_code generated_code
             in if length formatted_code > 100 \<and> py_in ''import'' formatted_code
                   \<and> (py_in ''function'' formatted_code \<or> py_in ''const'' formatted_code)
                then (Success formatted_code, Suc posts)
                else if attempt = 2 then (Incomplete formatted_code, Suc posts)
                else generate_ui_code_loop svc rest (Suc posts))
          else if attempt = 2
            then (Failed (''Error generating UI code: HTTP '' @ str_nat status), Suc posts)
            else generate_ui_code_loop svc rest (Suc posts)
      | Raised e \<Rightarrow>
          if attempt = 2 then (Failed (''Failed to generate UI code: '' @ e), Suc posts)
          else generate_ui_code_loop svc rest (Suc posts))"

definition generate_ui_code_run :: "service \<Rightarrow> gen_result \<times> nat" where
  "generate_ui_code_run svc = generate_ui_code_loop svc (enumerate_py attempt_schedule) 0"

definition generate_ui_code :: "service \<Rightarrow> string" where
  \<comment> \<open>\<open>StandaloneUIGenerationAgent.generate_ui_code\<close>: the string returned\<close>
  "generate_ui_code svc = result_text (fst (generate_ui_code_run svc))"

section \<open>UI-need detector (integration\_example.py)\<close>

text \<open>
  The requirements payload is a flat JSON object: an association list in the dict's
  iteration order. A value is either a list (\<open>Items\<close>, holding \<open>str(v)\<close> of each
  element) or anything else (\<open>Scalar\<close>, holding \<open>str(values)\<close>); for a string
  \<open>str\<close> is the string itself. The free text is \<open>None\<close> or a string.
\<close>

datatype req_value = Scalar string | Items "string list"

type_synonym requirements = "(string \<times> req_value) list"

definition ui_keywords :: "string list" where
  "ui_keywords =
     [''UI'', ''interface'', ''frontend'', ''react'', ''vue'', ''angular'',
      ''web page'', ''website'', ''responsive'', ''user interface'',
      ''dashboard'', ''display'', ''visualization'']"

definition ui_key_names :: "string list" where
  "ui_key_names =
     [''ui'', ''ui_components'', ''design'', ''design_preferences'',
      ''interface'', ''frontend'', ''display'']"

fun flat_values :: "requirements \<Rightarrow> string list" where
  "flat_values [] = []"
| "flat_values ((k, Items vs) # kvs) = map py_lower vs @ flat_values kvs"
| "flat_values ((k, Scalar v) # kvs) = py_lower v # flat_values kvs"

definition check_if_ui_needed_standalone :: "requirements \<Rightarrow> string option \<Rightarrow> bool" where
  "check_if_ui_needed_standalone requirements_json requirements_text =
     (if list_ex (\<lambda>key. py_lower key \<in> set ui_key_names) (map fst requirements_json)
      then True
      else if list_ex (\<lambda>keyword. py_in (py_lower keyword)
                 (py_join '' '' (flat_values requirements_json))) ui_keywords
      then True
      else if (case requirements_text of
                 None \<Rightarrow> False
               | Some t \<Rightarrow> truthy t \<and>
                   list_ex (\<lambda>keyword. py_in (py_lower keyword) (py_lower t)) ui_keywords)
      then True
      else False)"

definition check_if_ui_needed :: "requirements \<Rightarrow> string option \<Rightarrow> bool" where
  \<comment> \<open>\<open>SendRequirementsBehaviour._check_if_ui_needed\<close>: the same text as the standalone
      function\<close>
  "check_if_ui_needed requirements_json requirements_text =
     (if list_ex (\<lambda>key. py_lower key \<in> set ui_key_names) (map fst requirements_json)
      then True
      else if list_ex (\<lambda>keyword. py_in (py_lower keyword)
                 (py_join '' '' (flat_values requirements_json))) ui_keywords
      then True
      else if (case requirements_text of
                 None \<Rightarrow> False
               | Some t \<Rightarrow> truthy t \<and>
                   list_ex (\<lambda>keyword. py_in (py_lower keyword) (py_lower t)) ui_keywords)
      then True
      else False)"

section \<open>Project assembly (integrator\_agent.py)\<close>

text \<open>
  The filesystem is an association list from paths to nodes, the latest write first.
  \<open>host\<close> holds what \<open>integrate_project\<close> reads from its surroundings: the working
  directory, the eight hex digits of the fresh uuid, and whether its directory and file
  operations succeed (when one raises, the \<open>except\<close> branch returns \<open>None\<close>; what
  had been written before is not modelled). The literal texts of the static scaffold
  files are parameters (\<open>scaffold\<close>); the README text depends on the project directory.
\<close>

datatype node = Dir | File string

type_synonym filesystem = "(string \<times> node) list"

definition os_path_exists :: "filesystem \<Rightarrow> string \<Rightarrow> bool" where
  "os_path_exists fs p = (map_of fs p \<noteq> None)"

definition os_path_join :: "string \<Rightarrow> string \<Rightarrow> string" where
  \<comment> \<open>\<open>os.path.join(a, b)\<close> on POSIX: an absolute \<open>b\<close> replaces \<open>a\<close>, and the
      separator is added unless \<open>a\<close> is empty or ends with it\<close>
  "os_path_join a b =
     (if py_startswith ''/'' b then b
      else if a = [] \<or> last a = CHR ''/'' then a @ b
      else a @ ''/'' @ b)"

definition makedirs :: "filesystem \<Rightarrow> string \<Rightarrow> filesystem" where
  "makedirs fs p = (p, Dir) # fs"

definition write_file :: "filesystem \<Rightarrow> string \<Rightarrow> string \<Rightarrow> filesystem" where
  "write_file fs p text = (p, File text) # fs"

record host =
  cwd :: string
  uuid_hex8 :: string
  io_ok :: bool

record scaffold =
  index_html :: string
  package_json :: string
  readme_md :: "string \<Rightarrow> string"
  config_js :: string

definition nl :: string where
  "nl = [CHR 0x0A]"

definition baseline_requirements :: string where
  "baseline_requirements =
     ''fastapi>=0.100.0'' @ nl @ ''uvicorn>=0.23.0'' @ nl @ ''sqlalchemy>=2.0.0'' @ nl
     @ ''pydantic>=2.0.0'' @ nl @ ''python-dotenv>=1.0.0'' @ nl"

definition backend_requirements :: "string \<Rightarrow> string" where
  \<comment> \<open>everything written to \<open>backend/requirements.txt\<close>, write after write\<close>
  "backend_requirements backend_code =
     baseline_requirements
     @ (if py_in ''pandas'' (py_lower backend_code) then ''pandas>=2.0.0'' @ nl else [])
     @ (if py_in ''numpy'' (py_lower backend_code) then ''numpy>=1.24.0'' @ nl else [])
     @ (if py_in ''scikit-learn'' (py_lower backend_code) \<or> py_in ''sklearn'' (py_lower backend_code)
        then ''scikit-learn>=1.3.0'' @ nl else [])
     @ (if py_in ''matplotlib'' (py_lower backend_code) \<or> py_in ''pyplot'' (py_lower backend_code)
        then ''matplotlib>=3.7.0'' @ nl else [])
     @ (if py_in ''requests'' (py_lower backend_code) then ''requests>=2.31.0'' @ nl else [])"

definition integrate_project ::
  "host \<Rightarrow> scaffold \<Rightarrow> string \<Rightarrow> string \<Rightarrow> filesystem \<Rightarrow> string option \<times> filesystem" where
  \<comment> \<open>\<open>StandaloneIntegratorAgent.integrate_project\<close>: the project directory returned
      (or \<open>None\<close>) and the filesystem afterwards\<close>
  "integrate_project h sc backend_code ui_code fs =
     (if \<not> truthy backend_code \<or> \<not> truthy ui_code then (None, fs)
      else if \<not> io_ok h then (None, fs)
      else
        (let project_name = ''generated_project_'' @ uuid_hex8 h;
             project_dir = os_path_join (cwd h) project_name;
             fs1 = makedirs fs project_dir;
             backend_dir = os_path_join project_dir ''backend'';
             fs2 = makedirs fs1 backend_dir;
             frontend_dir = os_path_join project_dir ''frontend'';
             fs3 = makedirs fs2 frontend_dir;
             fs4 = write_file fs3 (os_path_join backend_dir ''app.py'') backend_code;
             fs5 = write_file fs4 (os_path_join backend_dir ''requirements.txt'')
                     (backend_requirements backend_code);
             fs6 = write_file fs5 (os_path_join frontend_dir ''App.jsx'') ui_code;
             fs7 = write_file fs6 (os_path_join frontend_dir ''index.html'') (index_html sc);
             fs8 = write_file fs7 (os_path_join frontend_dir ''package.json'') (package_json sc);
             fs9 = write_file fs8 (os_path_join project_dir ''README.md'') (readme_md sc project_dir);
             fs10 = write_file fs9 (os_path_join frontend_dir ''config.js'') (config_js sc)
         in (Some project_dir, fs10)))"

section \<open>Deployment (deployer\_agent.py)\<close>

text \<open>
  The machine is its filesystem, the running processes (pid and the port each listens on)
  and the next free pid. The deployer object holds two process handles. What a launched
  command does during its two-second settle period is given by the environment:
  it stays up, it exits (leaving text on standard error), or \<open>Popen\<close> itself raises.
  \<open>deploy_io_error\<close> is \<open>Some e\<close> when a step between the directory checks and the
  first launch (file monitoring, file creation, directory listing) raises \<open>e\<close>.
\<close>

record world =
  files :: filesystem
  procs :: "(nat \<times> nat) list"
  next_pid :: nat

record deployer =
  backend_proc :: "nat option"
  frontend_proc :: "nat option"

datatype launch = StaysUp | ExitsEarly string | SpawnFails string

record deploy_env =
  backend_launch :: launch
  frontend_launch :: launch
  deploy_io_error :: "string option"

datatype deploy_result = DeploySuccess string string string | DeployError string

definition stop_proc :: "nat option \<Rightarrow> world \<Rightarrow> world" where
  \<comment> \<open>\<open>terminate()\<close>, \<open>wait(timeout=5)\<close>, and \<open>kill()\<close> on a timeout: either way
      the process is gone\<close>
  "stop_proc handle w =
     (case handle of
        None \<Rightarrow> w
      | Some pid \<Rightarrow> w\<lparr>procs := filter (\<lambda>(p, port). p \<noteq> pid) (procs w)\<rparr>)"

definition ensure_ports_available :: "nat list \<Rightarrow> world \<Rightarrow> world" where
  \<comment> \<open>every process that \<open>lsof\<close> lists on one of the ports is killed\<close>
  "ensure_ports_available ports w =
     w\<lparr>procs := filter (\<lambda>(p, port). port \<notin> set ports) (procs w)\<rparr>"

definition stop_current_services :: "deployer \<times> world \<Rightarrow> deployer \<times> world" where
  "stop_current_services dw =
     (let d = fst dw; w = snd dw;
          w1 = stop_proc (backend_proc d) w;
          d1 = d\<lparr>backend_proc := None\<rparr>;
          w2 = stop_proc (frontend_proc d1) w1;
          d2 = d1\<lparr>frontend_proc := None\<rparr>;
          w3 = ensure_ports_available [8000, 3000] w2
      in (d2, w3))"

definition popen :: "launch \<Rightarrow> nat \<Rightarrow> world \<Rightarrow> string + (nat \<times> world)" where
  \<comment> \<open>\<open>subprocess.Popen\<close> followed by the settle period\<close>
  "popen l port w =
     (case l of
        SpawnFails e \<Rightarrow> Inl e
      | ExitsEarly err \<Rightarrow> Inr (next_pid w, w\<lparr>next_pid := Suc (next_pid w)\<rparr>)
      | StaysUp \<Rightarrow>
          Inr (next_pid w,
               w\<lparr>procs := (next_pid w, port) # procs w, next_pid := Suc (next_pid w)\<rparr>))"

definition poll_exited :: "launch \<Rightarrow> bool" where
  \<comment> \<open>\<open>proc.poll() is not None\<close> after the settle period\<close>
  "poll_exited l = (case l of ExitsEarly err \<Rightarrow> True | StaysUp \<Rightarrow> False | SpawnFails e \<Rightarrow> False)"

definition stderr_text :: "launch \<Rightarrow> string" where
  "stderr_text l = (case l of ExitsEarly err \<Rightarrow> err | StaysUp \<Rightarrow> [] | SpawnFails e \<Rightarrow> [])"

definition deploy_project ::
  "deploy_env \<Rightarrow> scaffold \<Rightarrow> string \<Rightarrow> deployer \<times> world \<Rightarrow> deploy_result \<times> deployer \<times> world" where
  \<comment> \<open>\<open>StandaloneDeployerAgent.deploy_project\<close>\<close>
  "deploy_project e sc project_dir dw =
     (if \<not> os_path_exists (files (snd dw)) project_dir
      then (DeployError (''Project directory does not exist: '' @ project_dir), dw)
      else
        (let dw1 = stop_current_services dw;
             d1 = fst dw1; w1 = snd dw1;
             backend_dir = os_path_join project_dir ''backend'';
             frontend_dir = os_path_join project_dir ''frontend''
         in if \<not> os_path_exists (files w1) backend_dir
            then (DeployError (''Backend directory not found: '' @ backend_dir), d1, w1)
            else if \<not> os_path_exists (files w1) frontend_dir
            then (DeployError (''Frontend directory not found: '' @ frontend_dir), d1, w1)
            else if \<not> os_path_exists (files w1) (os_path_join backend_dir ''app.py'')
            then (DeployError (''Backend app.py not found: '' @ os_path_join backend_dir ''app.py''),
                  d1, w1)
            else
              (case deploy_io_error e of
                 Some ex \<Rightarrow> (DeployError (''Error deploying project: '' @ ex), d1, w1)
               | None \<Rightarrow>
                  (let requirements_file = os_path_join backend_dir ''requirements.txt'';
                       w2 = (if \<not> os_path_exists (files w1) requirements_file
                             then w1\<lparr>files := write_file (files w1) requirements_file
                                                  baseline_requirements\<rparr>
                             else w1);
                       frontend_index = os_path_join frontend_dir ''index.html'';
                       w3 = (if \<not> os_path_exists (files w2) frontend_index
                             then (if os_path_exists (files w2) (os_path_join frontend_dir ''App.jsx'')
                                   then w2\<lparr>files := write_file (files w2) frontend_index
                                                        (index_html sc)\<rparr>
                                   else w2)
                             else w2)
                   in case popen (backend_launch e) 8000 w3 of
                        Inl ex \<Rightarrow> (DeployError (''Error deploying project: '' @ ex), d1, w3)
                      | Inr (bpid, w4) \<Rightarrow>
                         (let d2 = d1\<lparr>backend_proc := Some bpid\<rparr>
                          in if poll_exited (backend_launch e)
                             then (DeployError (''Backend server failed to start: ''
                                                @ take 500 (stderr_text (backend_launch e))), d2, w4)
                             else
                               (case popen (frontend_launch e) 3000 w4 of
                                  Inl ex \<Rightarrow>
                                    (DeployError (''Error deploying project: '' @ ex), d2, w4)
                                | Inr (fpid, w5) \<Rightarrow>
                                   (let d3 = d2\<lparr>frontend_proc := Some fpid\<rparr>
                                    in if poll_exited (frontend_launch e)
                                       then (DeployError (''Frontend server failed to start: ''
                                               @ take 500 (stderr_text (frontend_launch e))), d3, w5)
                                       else (DeploySuccess ''http://localhost:8000''
                                               ''http://localhost:3000'' project_dir, d3, w5))))))))"

section \<open>The standalone pipeline (integration\_example.py)\<close>

text \<open>
  \<open>run_standalone\<close> receives the analysed requirements (the analyser is an external
  collaborator) and the machine it runs on. The report holds the fields of the returned
  dict, and beside them what the run did: whether \<open>integrate_project\<close> was called, the
  result of \<open>deploy_project\<close> when it was called, and the deployer and machine afterwards.
\<close>

record pipeline_env =
  code_service :: service
  ui_service :: service
  machine :: host
  templates :: scaffold
  launches :: deploy_env

record run_report =
  generated_code :: string
  generated_ui :: "string option"
  needs_ui :: bool
  project_dir :: "string option"
  backend_url :: string
  frontend_url :: string
  assembler_called :: bool
  deployment :: "deploy_result option"
  supervisor :: deployer
  machine_after :: world

definition report ::
  "string \<Rightarrow> string option \<Rightarrow> bool \<Rightarrow> string option \<Rightarrow> bool \<Rightarrow> deploy_result option
   \<Rightarrow> deployer \<Rightarrow> world \<Rightarrow> run_report" where
  "report code ui ui_wanted dir called dep d w =
     \<lparr>generated_code = code, generated_ui = ui, needs_ui = ui_wanted, project_dir = dir,
      backend_url = ''http://localhost:8000'', frontend_url = ''http://localhost:3000'',
      assembler_called = called, deployment = dep, supervisor = d, machine_after = w\<rparr>"

definition run_standalone ::
  "pipeline_env \<Rightarrow> requirements \<Rightarrow> string option \<Rightarrow> world \<Rightarrow> run_report" where
  "run_standalone env req_json req_text w =
     (let ui_wanted = check_if_ui_needed_standalone req_json req_text;
          deployer_agent = \<lparr>backend_proc = None, frontend_proc = None\<rparr>;
          code = generate_code (code_service env);
          ui = (if ui_wanted then Some (generate_ui_code (ui_service env)) else None);
          ui_truthy = (case ui of None \<Rightarrow> False | Some u \<Rightarrow> truthy u)
      in if truthy code \<and> (\<not> ui_wanted \<or> ui_truthy)
         then
           (let ip = integrate_project (machine env) (templates env) code
                       (case ui of None \<Rightarrow> [] | Some u \<Rightarrow> u) (files w);
                w1 = w\<lparr>files := snd ip\<rparr>
            in case fst ip of
                 None \<Rightarrow> report code ui ui_wanted None True None deployer_agent w1
               | Some dir \<Rightarrow>
                   if os_path_exists (files w1) dir
                   then (let r = deploy_project (launches env) (templates env) dir
                                   (deployer_agent, w1)
                         in report code ui ui_wanted (Some dir) True (Some (fst r))
                              (fst (snd r)) (snd (snd r)))
                   else report code ui ui_wanted (Some dir) True None deployer_agent w1)
         else report code ui ui_wanted None False None deployer_agent w)"

section \<open>Notions used to state the properties\<close>

definition contains :: "string \<Rightarrow> string \<Rightarrow> bool" where
  \<comment> \<open>\<open>contains h n\<close>: the text \<open>h\<close> has \<open>n\<close> as a contiguous part\<close>
  "contains h n = (\<exists>before after. h = before @ n @ after)"

definition occurs_ci :: "string \<Rightarrow> string \<Rightarrow> bool" where
  \<comment> \<open>\<open>occurs_ci h n\<close>: some contiguous part of \<open>h\<close> is \<open>n\<close> up to letter case\<close>
  "occurs_ci h n = (\<exists>before part after. h = before @ part @ after \<and> py_lower part = py_lower n)"

definition heuristic_backend :: "string \<Rightarrow> bool" where
  \<comment> \<open>the acceptance heuristic of the backend worker, in the words of the specification\<close>
  "heuristic_backend t = (length t > 100 \<and> contains t ''import'' \<and> contains t ''def'')"

definition heuristic_ui :: "string \<Rightarrow> bool" where
  \<comment> \<open>the acceptance heuristic of the UI worker, in the words of the specification\<close>
  "heuristic_ui t =
     (length t > 100 \<and> contains t ''import'' \<and> (contains t ''function'' \<or> contains t ''const''))"

definition attempt_response :: "service \<Rightarrow> nat \<Rightarrow> response" where
  \<comment> \<open>the service's answer to attempt \<open>i\<close> of the schedule\<close>
  "attempt_response svc i = svc i (attempt_schedule ! i)"

definition backend_reply_text :: "response \<Rightarrow> string" where
  \<comment> \<open>the delimiter-extracted text of an answer\<close>
  "backend_reply_text r =
     (case r of
        Responded status text \<Rightarrow> format_generated_code (py_strip text)
      | Raised e \<Rightarrow> [])"

definition backend_reply_accepted :: "response \<Rightarrow> bool" where
  \<comment> \<open>the answer came with status 200 and its extracted text passes the heuristic\<close>
  "backend_reply_accepted r =
     (case r of
        Responded status text \<Rightarrow>
          status = 200 \<and> heuristic_backend (format_generated_code (py_strip text))
      | Raised e \<Rightarrow> False)"

definition ui_reply_text :: "response \<Rightarrow> string" where
  "ui_reply_text r =
     (case r of
        Responded status text \<Rightarrow> format_generated_ui_code (py_strip text)
      | Raised e \<Rightarrow> [])"

definition ui_reply_accepted :: "response \<Rightarrow> bool" where
  "ui_reply_accepted r =
     (case r of
        Responded status text \<Rightarrow>
          status = 200 \<and> heuristic_ui (format_generated_ui_code (py_strip text))
      | Raised e \<Rightarrow> False)"

definition transport_error :: "response \<Rightarrow> bool" where
  \<comment> \<open>the attempt ended in an exception or in a status other than 200\<close>
  "transport_error r = (case r of Responded status text \<Rightarrow> status \<noteq> 200 | Raised e \<Rightarrow> True)"

fun split_lines :: "string \<Rightarrow> string list" where
  \<comment> \<open>the lines of a text, as \<open>str.splitlines\<close> gives them for the separator \<open>\n\<close>\<close>
  "split_lines [] = []"
| "split_lines (c # cs) =
     (if c = CHR 0x0A then [] # split_lines cs
      else (case split_lines cs of [] \<Rightarrow> [[c]] | l # ls \<Rightarrow> (c # l) # ls))"

definition requirements_txt :: "string \<Rightarrow> filesystem \<Rightarrow> string option" where
  \<comment> \<open>the text of \<open>backend/requirements.txt\<close> under a project directory, if it is a file\<close>
  "requirements_txt dir fs =
     (case map_of fs (os_path_join (os_path_join dir ''backend'') ''requirements.txt'') of
        Some (File text) \<Rightarrow> Some text
      | Some Dir \<Rightarrow> None
      | None \<Rightarrow> None)"

definition running :: "world \<Rightarrow> nat \<Rightarrow> bool" where
  \<comment> \<open>the process is alive\<close>
  "running w pid = (pid \<in> fst ` set (procs w))"

definition layout_ready :: "filesystem \<Rightarrow> string \<Rightarrow> bool" where
  \<comment> \<open>the project directory with its \<open>backend\<close> and \<open>frontend\<close> directories and
      \<open>backend/app.py\<close> exist\<close>
  "layout_ready fs dir =
     (os_path_exists fs dir \<and> os_path_exists fs (os_path_join dir ''backend'')
      \<and> os_path_exists fs (os_path_join dir ''frontend'')
      \<and> os_path_exists fs (os_path_join (os_path_join dir ''backend'') ''app.py''))"

section \<open>Sample inputs\<close>

definition sample_backend_text :: string where
  "sample_backend_text =
     ''import fastapi'' @ nl @ ''def handler(): pass'' @ nl @ replicate 80 (CHR ''#'')"

definition sample_ui_text :: string where
  "sample_ui_text =
     ''import React from react;'' @ nl @ ''function App() { return null; }'' @ nl
     @ replicate 60 (CHR ''/'')"

definition pandas_backend_text :: string where
  "pandas_backend_text = ''import Pandas as pd'' @ nl @ ''def rows(): return pd.DataFrame()''"

definition flaky_service :: service where
  \<comment> \<open>the first POST is refused, every later one is answered with a usable backend text\<close>
  "flaky_service i opts =
     (if i = 0 then Raised ''connection refused'' else Responded 200 sample_backend_text)"

definition flaky_ui_service :: service where
  "flaky_ui_service i opts =
     (if i = 0 then Raised ''connection refused'' else Responded 200 sample_ui_text)"

definition down_service :: service where
  \<comment> \<open>the completion service is unreachable on every attempt\<close>
  "down_service i opts = Raised ''connection refused''"

definition recovering_service :: service where
  \<comment> \<open>two refused POSTs, then an answer too short to be accepted\<close>
  "recovering_service i opts = (if i < 2 then Raised ''connection refused'' else Responded 200 ''pass'')"

definition terse_service :: service where
  \<comment> \<open>every POST is answered, always with a text too short to be accepted\<close>
  "terse_service i opts = Responded 200 ''pass''"

definition ui_service_ok :: service where
  "ui_service_ok i opts = Responded 200 sample_ui_text"

definition chat_requirements :: requirements where
  "chat_requirements = [(''functionalities'', Items [''chat interface''])]"

definition plain_requirements :: requirements where
  "plain_requirements = [(''functionalities'', Items [''chat'', ''code examples''])]"

definition sample_host :: host where
  "sample_host = \<lparr>cwd = ''/work'', uuid_hex8 = ''f50b64a8'', io_ok = True\<rparr>"

definition sample_scaffold :: scaffold where
  "sample_scaffold =
     \<lparr>index_html = ''<!DOCTYPE html>'', package_json = ''{}'',
      readme_md = (\<lambda>dir. ''# Generated Project '' @ dir), config_js = ''// config''\<rparr>"

definition sample_world :: world where
  "sample_world = \<lparr>files = [(''/work'', Dir)], procs = [], next_pid = 100\<rparr>"

definition all_up :: deploy_env where
  "all_up = \<lparr>backend_launch = StaysUp, frontend_launch = StaysUp, deploy_io_error = None\<rparr>"

definition frontend_dies :: deploy_env where
  "frontend_dies =
     \<lparr>backend_launch = StaysUp, frontend_launch = ExitsEarly ''Address already in use'',
      deploy_io_error = None\<rparr>"

definition idle_deployer :: deployer where
  "idle_deployer = \<lparr>backend_proc = None, frontend_proc = None\<rparr>"

definition backend_only_world :: world where
  \<comment> \<open>a project with a backend artifact and no frontend directory\<close>
  "backend_only_world =
     \<lparr>files = [(''/p/backend/app.py'', File sample_backend_text), (''/p/backend'', Dir),
               (''/p'', Dir)],
      procs = [], next_pid = 100\<rparr>"

definition empty_frontend_world :: world where
  \<comment> \<open>a project with a backend artifact and an empty frontend directory\<close>
  "empty_frontend_world =
     \<lparr>files = [(''/p/frontend'', Dir), (''/p/backend/app.py'', File sample_backend_text),
               (''/p/backend'', Dir), (''/p'', Dir)],
      procs = [], next_pid = 100\<rparr>"

definition failing_backend_env :: pipeline_env where
  \<comment> \<open>the backend worker's service is down, everything else works\<close>
  "failing_backend_env =
     \<lparr>code_service = down_service, ui_service = ui_service_ok, machine = sample_host,
      templates = sample_scaffold, launches = all_up\<rparr>"

definition working_env :: pipeline_env where
  "working_env =
     \<lparr>code_service = flaky_service, ui_service = ui_service_ok, machine = sample_host,
      templates = sample_scaffold, launches = all_up\<rparr>"

definition dashboard_requirements :: requirements where
  "dashboard_requirements = [(''functionalities'', Items [''sales dashboard''])]"

section \<open>Facts about the string functions\<close>

lemma py_startswith_iff: "py_startswith p s \<longleftrightarrow> (\<exists>r. s = p @ r)"
  by (induction p s rule: py_startswith.induct) auto

lemma py_in_iff: "py_in n h \<longleftrightarrow> (\<exists>before after. h = before @ n @ after)"
proof (induction h)
  case Nil
  then show ?case by auto
next
  case (Cons c cs)
  show ?case
  proof
    assume "py_in n (c # cs)"
    then consider "py_startswith n (c # cs)" | "py_in n cs" by auto
    then show "\<exists>before after. c # cs = before @ n @ after"
    proof cases
      case 1
      then obtain r where "c # cs = n @ r" by (auto simp: py_startswith_iff)
      then have "c # cs = [] @ n @ r" by simp
      then show ?thesis by blast
    next
      case 2
      then obtain b a where "cs = b @ n @ a" using Cons.IH by auto
      then have "c # cs = (c # b) @ n @ a" by simp
      then show ?thesis by blast
    qed
  next
    assume "\<exists>before after. c # cs = before @ n @ after"
    then obtain b a where ba: "c # cs = b @ n @ a" by auto
    show "py_in n (c # cs)"
    proof (cases b)
      case Nil
      with ba have "py_startswith n (c # cs)" by (auto simp: py_startswith_iff)
      then show ?thesis by simp
    next
      case (Cons b0 bs)
      with ba have "cs = bs @ n @ a" by simp
      then have "py_in n cs" using Cons.IH by blast
      then show ?thesis by simp
    qed
  qed
qed

lemma contains_py_in [code]: "contains h n = py_in n h"
  by (simp add: contains_def py_in_iff)

section \<open>The generation workers\<close>

lemma generate_code_run_unfold:
  "generate_code_run svc =
     generate_code_loop svc [(0, 10, 2000), (Suc 0, 20, 2500), (2, 5, 3000)] 0"
  by (simp add: generate_code_run_def enumerate_py_def attempt_schedule_def upt_rec
        numeral_2_eq_2 del: generate_code_loop.simps)

lemma attempt_schedule_nth:
  "attempt_schedule ! 0 = (10, 2000)"
  "attempt_schedule ! Suc 0 = (20, 2500)"
  "attempt_schedule ! 2 = (5, 3000)"
  by (simp_all add: attempt_schedule_def)

lemma code_loop_accept:
  "backend_reply_accepted (svc a t) \<Longrightarrow>
   generate_code_loop svc ((a, t) # rest) n = (Success (backend_reply_text (svc a t)), Suc n)"
  by (cases "svc a t")
     (simp_all add: backend_reply_accepted_def backend_reply_text_def heuristic_backend_def
        contains_py_in Let_def)

lemma code_loop_skip:
  "\<not> backend_reply_accepted (svc a t) \<Longrightarrow> a \<noteq> 2 \<Longrightarrow>
   generate_code_loop svc ((a, t) # rest) n = generate_code_loop svc rest (Suc n)"
  by (cases "svc a t")
     (auto simp add: backend_reply_accepted_def heuristic_backend_def contains_py_in Let_def)

lemma code_loop_last:
  "\<not> backend_reply_accepted (svc 2 t) \<Longrightarrow>
   generate_code_loop svc ((2, t) # rest) n =
     ((case svc 2 t of
         Responded status text \<Rightarrow>
           if status = 200 then Incomplete (format_generated_code (py_strip text))
           else Failed (''Error generating code: HTTP '' @ str_nat status)
       | Raised e \<Rightarrow> Failed (''Failed to generate code: '' @ e)), Suc n)"
  by (cases "svc 2 t")
     (auto simp add: backend_reply_accepted_def heuristic_backend_def contains_py_in Let_def)

lemma code_loop_posts: "snd (generate_code_loop svc xs n) \<le> n + length xs"
proof (induction xs arbitrary: n)
  case Nil
  then show ?case by simp
next
  case (Cons x xs)
  obtain a t where x: "x = (a, t)" by (cases x)
  have "snd (generate_code_loop svc xs (Suc n)) \<le> Suc n + length xs" by (rule Cons.IH)
  then show ?case
    by (cases "svc a t") (simp_all add: x Let_def)
qed

lemma code_run_posts: "snd (generate_code_run svc) \<le> 3"
  using code_loop_posts [of svc "[(0, 10, 2000), (Suc 0, 20, 2500), (2, 5, 3000)]" 0]
  by (simp add: generate_code_run_unfold del: generate_code_loop.simps)

lemma code_run_first_accepted:
  assumes i: "i < 3" and acc: "backend_reply_accepted (attempt_response svc i)"
    and first: "\<forall>j<i. \<not> backend_reply_accepted (attempt_response svc j)"
  shows "generate_code_run svc = (Success (backend_reply_text (attempt_response svc i)), Suc i)"
proof -
  consider "i = 0" | "i = Suc 0" | "i = 2" using i by arith
  then show ?thesis
  proof cases
    case 1
    with acc show ?thesis
      by (simp add: generate_code_run_unfold attempt_response_def attempt_schedule_nth
            code_loop_accept del: generate_code_loop.simps)
  next
    case 2
    with first have n0: "\<not> backend_reply_accepted (svc 0 (10, 2000))"
      by (simp add: attempt_response_def attempt_schedule_nth)
    from 2 acc have a1: "backend_reply_accepted (svc (Suc 0) (20, 2500))"
      by (simp add: attempt_response_def attempt_schedule_nth)
    show ?thesis using n0 a1 2
      by (simp add: generate_code_run_unfold attempt_response_def attempt_schedule_nth
            code_loop_accept code_loop_skip del: generate_code_loop.simps)
  next
    case 3
    from 3 first have "\<not> backend_reply_accepted (attempt_response svc 0)" by simp
    then have n0: "\<not> backend_reply_accepted (svc 0 (10, 2000))"
      by (simp add: attempt_response_def attempt_schedule_nth)
    from 3 first have "\<not> backend_reply_accepted (attempt_response svc (Suc 0))" by simp
    then have n1: "\<not> backend_reply_accepted (svc (Suc 0) (20, 2500))"
      by (simp add: attempt_response_def attempt_schedule_nth)
    from 3 acc have a2: "backend_reply_accepted (svc 2 (5, 3000))"
      by (simp add: attempt_response_def attempt_schedule_nth)
    show ?thesis using n0 n1 a2 3
      by (simp add: generate_code_run_unfold attempt_response_def attempt_schedule_nth
            code_loop_accept code_loop_skip del: generate_code_loop.simps)
  qed
qed

lemma code_run_none_accepted:
  assumes "\<not> backend_reply_accepted (attempt_response svc 0)"
    and "\<not> backend_reply_accepted (attempt_response svc (Suc 0))"
    and "\<not> backend_reply_accepted (attempt_response svc 2)"
  shows "generate_code_run svc =
     ((case attempt_response svc 2 of
         Responded status text \<Rightarrow>
           if status = 200 then Incomplete (format_generated_code (py_strip text))
           else Failed (''Error generating code: HTTP '' @ str_nat status)
       | Raised e \<Rightarrow> Failed (''Failed to generate code: '' @ e)), 3)"
  using assms
  by (simp add: generate_code_run_unfold attempt_response_def attempt_schedule_nth
        code_loop_last code_loop_skip del: generate_code_loop.simps)


lemma generate_ui_code_run_unfold:
  "generate_ui_code_run svc =
     generate_ui_code_loop svc [(0, 10, 2000), (Suc 0, 20, 2500), (2, 5, 3000)] 0"
  by (simp add: generate_ui_code_run_def enumerate_py_def attempt_schedule_def upt_rec
        numeral_2_eq_2 del: generate_ui_code_loop.simps)

lemma ui_loop_accept:
  "ui_reply_accepted (svc a t) \<Longrightarrow>
   generate_ui_code_loop svc ((a, t) # rest) n = (Success (ui_reply_text (svc a t)), Suc n)"
  by (cases "svc a t")
     (simp_all add: ui_reply_accepted_def ui_reply_text_def heuristic_ui_def
        contains_py_in Let_def)

lemma ui_loop_skip:
  "\<not> ui_reply_accepted (svc a t) \<Longrightarrow> a \<noteq> 2 \<Longrightarrow>
   generate_ui_code_loop svc ((a, t) # rest) n = generate_ui_code_loop svc rest (Suc n)"
  by (cases "svc a t")
     (auto simp add: ui_reply_accepted_def heuristic_ui_def contains_py_in Let_def)

lemma ui_loop_last:
  "\<not> ui_reply_accepted (svc 2 t) \<Longrightarrow>
   generate_ui_code_loop svc ((2, t) # rest) n =
     ((case svc 2 t of
         Responded status text \<Rightarrow>
           if status = 200 then Incomplete (format_generated_ui_code (py_strip text))
           else Failed (''Error generating UI code: HTTP '' @ str_nat status)
       | Raised e \<Rightarrow> Failed (''Failed to generate UI code: '' @ e)), Suc n)"
  by (cases "svc 2 t")
     (auto simp add: ui_reply_accepted_def heuristic_ui_def contains_py_in Let_def)

lemma ui_loop_posts: "snd (generate_ui_code_loop svc xs n) \<le> n + length xs"
proof (induction xs arbitrary: n)
  case Nil
  then show ?case by simp
next
  case (Cons x xs)
  obtain a t where x: "x = (a, t)" by (cases x)
  have "snd (generate_ui_code_loop svc xs (Suc n)) \<le> Suc n + length xs" by (rule Cons.IH)
  then show ?case
    by (cases "svc a t") (simp_all add: x Let_def)
qed

lemma ui_run_posts: "snd (generate_ui_code_run svc) \<le> 3"
  using ui_loop_posts [of svc "[(0, 10, 2000), (Suc 0, 20, 2500), (2, 5, 3000)]" 0]
  by (simp add: generate_ui_code_run_unfold del: generate_ui_code_loop.simps)

lemma ui_run_first_accepted:
  assumes i: "i < 3" and acc: "ui_reply_accepted (attempt_response svc i)"
    and first: "\<forall>j<i. \<not> ui_reply_accepted (attempt_response svc j)"
  shows "generate_ui_code_run svc = (Success (ui_reply_text (attempt_response svc i)), Suc i)"
proof -
  consider "i = 0" | "i = Suc 0" | "i = 2" using i by arith
  then show ?thesis
  proof cases
    case 1
    with acc show ?thesis
      by (simp add: generate_ui_code_run_unfold attempt_response_def attempt_schedule_nth
            ui_loop_accept del: generate_ui_code_loop.simps)
  next
    case 2
    with first have n0: "\<not> ui_reply_accepted (svc 0 (10, 2000))"
      by (simp add: attempt_response_def attempt_schedule_nth)
    from 2 acc have a1: "ui_reply_accepted (svc (Suc 0) (20, 2500))"
      by (simp add: attempt_response_def attempt_schedule_nth)
    show ?thesis using n0 a1 2
      by (simp add: generate_ui_code_run_unfold attempt_response_def attempt_schedule_nth
            ui_loop_accept ui_loop_skip del: generate_ui_code_loop.simps)
  next
    case 3
    from 3 first have "\<not> ui_reply_accepted (attempt_response svc 0)" by simp
    then have n0: "\<not> ui_reply_accepted (svc 0 (10, 2000))"
      by (simp add: attempt_response_def attempt_schedule_nth)
    from 3 first have "\<not> ui_reply_accepted (attempt_response svc (Suc 0))" by simp
    then have n1: "\<not> ui_reply_accepted (svc (Suc 0) (20, 2500))"
      by (simp add: attempt_response_def attempt_schedule_nth)
    from 3 acc have a2: "ui_reply_accepted (svc 2 (5, 3000))"
      by (simp add: attempt_response_def attempt_schedule_nth)
    show ?thesis using n0 n1 a2 3
      by (simp add: generate_ui_code_run_unfold attempt_response_def attempt_schedule_nth
            ui_loop_accept ui_loop_skip del: generate_ui_code_loop.simps)
  qed
qed

lemma ui_run_none_accepted:
  assumes "\<not> ui_reply_accepted (attempt_response svc 0)"
    and "\<not> ui_reply_accepted (attempt_response svc (Suc 0))"
    and "\<not> ui_reply_accepted (attempt_response svc 2)"
  shows "generate_ui_code_run svc =
     ((case attempt_response svc 2 of
         Responded status text \<Rightarrow>
           if status = 200 then Incomplete (format_generated_ui_code (py_strip text))
           else Failed (''Error generating UI code: HTTP '' @ str_nat status)
       | Raised e \<Rightarrow> Failed (''Failed to generate UI code: '' @ e)), 3)"
  using assms
  by (simp add: generate_ui_code_run_unfold attempt_response_def attempt_schedule_nth
        ui_loop_last ui_loop_skip del: generate_ui_code_loop.simps)

section \<open>Claims about the generation workers\<close>

text \<open>
  Claim C7. Whatever the completion service answers, a worker issues at most three POSTs;
  and when attempt \<open>i\<close> is the first whose extracted text passes the acceptance
  heuristic, the worker returns exactly that text, having issued \<open>i + 1\<close> POSTs and no
  more. This holds for the backend worker and for the UI worker.
\<close>

theorem worker_attempts_bounded_and_first_accepted_returned:
  "snd (generate_code_run svc) \<le> 3 \<and> snd (generate_ui_code_run svc) \<le> 3 \<and>
   (\<forall>i<3. backend_reply_accepted (attempt_response svc i) \<and>
            (\<forall>j<i. \<not> backend_reply_accepted (attempt_response svc j)) \<longrightarrow>
      generate_code_run svc = (Success (backend_reply_text (attempt_response svc i)), Suc i)) \<and>
   (\<forall>i<3. ui_reply_accepted (attempt_response svc i) \<and>
            (\<forall>j<i. \<not> ui_reply_accepted (attempt_response svc j)) \<longrightarrow>
      generate_ui_code_run svc = (Success (ui_reply_text (attempt_response svc i)), Suc i))"
  using code_run_posts [of svc] ui_run_posts [of svc]
    code_run_first_accepted [of _ svc] ui_run_first_accepted [of _ svc]
  by blast

theorem worker_attempts_bounded_and_first_accepted_returned_witness:
  "snd (generate_code_run flaky_service) \<le> 3 \<and>
   generate_code_run flaky_service = (Success sample_backend_text, 2) \<and>
   generate_ui_code_run flaky_ui_service = (Success sample_ui_text, 2)"
proof -
  have b1: "backend_reply_accepted (attempt_response flaky_service 1)" by code_simp
  have b0: "\<not> backend_reply_accepted (attempt_response flaky_service 0)" by code_simp
  have bt: "backend_reply_text (attempt_response flaky_service (Suc 0)) = sample_backend_text"
    by code_simp
  have u1: "ui_reply_accepted (attempt_response flaky_ui_service 1)" by code_simp
  have u0: "\<not> ui_reply_accepted (attempt_response flaky_ui_service 0)" by code_simp
  have ut: "ui_reply_text (attempt_response flaky_ui_service (Suc 0)) = sample_ui_text"
    by code_simp
  have one: "(1::nat) < 3" by simp
  from b0 have bfirst: "\<forall>j<(1::nat). \<not> backend_reply_accepted (attempt_response flaky_service j)"
    by simp
  from u0 have ufirst: "\<forall>j<(1::nat). \<not> ui_reply_accepted (attempt_response flaky_ui_service j)"
    by simp
  note b = worker_attempts_bounded_and_first_accepted_returned [of flaky_service]
  note u = worker_attempts_bounded_and_first_accepted_returned [of flaky_ui_service]
  from b have "snd (generate_code_run flaky_service) \<le> 3" by blast
  moreover from b one b1 bfirst
  have "generate_code_run flaky_service =
      (Success (backend_reply_text (attempt_response flaky_service 1)), Suc 1)"
    by blast
  moreover from u one u1 ufirst
  have "generate_ui_code_run flaky_ui_service =
      (Success (ui_reply_text (attempt_response flaky_ui_service 1)), Suc 1)"
    by blast
  ultimately show ?thesis by (simp add: bt ut)
qed

text \<open>
  Claim C8. An answer with status 200 is accepted (returned at once as the result of the
  request) exactly when its delimiter-extracted text is longer than 100 characters and
  contains "import" and, for the backend worker, "def", or, for the UI worker,
  "function" or "const". Otherwise the text is returned as best effort on the last
  attempt, and the loop goes on to the next attempt before that.
\<close>

theorem attempt_accepted_iff_heuristic:
  assumes "svc attempt temp = Responded 200 text"
  shows
    "generate_code_loop svc ((attempt, temp) # rest) n =
       (if heuristic_backend (format_generated_code (py_strip text))
        then (Success (format_generated_code (py_strip text)), Suc n)
        else if attempt = 2 then (Incomplete (format_generated_code (py_strip text)), Suc n)
        else generate_code_loop svc rest (Suc n)) \<and>
     generate_ui_code_loop svc ((attempt, temp) # rest) n =
       (if heuristic_ui (format_generated_ui_code (py_strip text))
        then (Success (format_generated_ui_code (py_strip text)), Suc n)
        else if attempt = 2 then (Incomplete (format_generated_ui_code (py_strip text)), Suc n)
        else generate_ui_code_loop svc rest (Suc n))"
  using assms
  by (simp add: heuristic_backend_def heuristic_ui_def contains_py_in Let_def)

theorem attempt_accepted_iff_heuristic_witness:
  "generate_code_loop terse_service [(2, 5, 3000)] 2 = (Incomplete ''pass'', 3) \<and>
   generate_ui_code_loop ui_service_ok [(0, 10, 2000)] 0 = (Success sample_ui_text, 1)"
proof -
  have t: "terse_service 2 (5, 3000) = Responded 200 ''pass''"
    by (simp add: terse_service_def)
  have u: "ui_service_ok 0 (10, 2000) = Responded 200 sample_ui_text"
    by (simp add: ui_service_ok_def)
  have ht: "\<not> heuristic_backend (format_generated_code (py_strip ''pass''))" by code_simp
  have ft: "format_generated_code (py_strip ''pass'') = ''pass''" by code_simp
  have hu: "heuristic_ui (format_generated_ui_code (py_strip sample_ui_text))" by code_simp
  have fu: "format_generated_ui_code (py_strip sample_ui_text) = sample_ui_text" by code_simp
  from attempt_accepted_iff_heuristic [of terse_service 2 "(5, 3000)" "''pass''" "[]" 2] t ht ft
  have "generate_code_loop terse_service [(2, 5, 3000)] 2 = (Incomplete ''pass'', 3)"
    by simp
  moreover from attempt_accepted_iff_heuristic
      [of ui_service_ok 0 "(10, 2000)" sample_ui_text "[]" 0] u hu fu
  have "generate_ui_code_loop ui_service_ok [(0, 10, 2000)] 0 = (Success sample_ui_text, 1)"
    by simp
  ultimately show ?thesis by simp
qed

text \<open>
  Claim C4, as stated: the worker returns an Incomplete result only when every attempt
  failed the acceptance heuristic and no attempt raised a transport error. The backend
  worker returns the last attempt's rejected text also after two refused POSTs.
\<close>

theorem incomplete_after_transport_errors_counterexample:
  "\<not> (\<forall>svc t. fst (generate_code_run svc) = Incomplete t \<longrightarrow>
         (\<forall>i<3. \<not> transport_error (attempt_response svc i)))"
proof
  assume claim: "\<forall>svc t. fst (generate_code_run svc) = Incomplete t \<longrightarrow>
         (\<forall>i<3. \<not> transport_error (attempt_response svc i))"
  have "fst (generate_code_run recovering_service) = Incomplete ''pass''" by code_simp
  with claim have "\<forall>i<3. \<not> transport_error (attempt_response recovering_service i)" by blast
  then have "\<not> transport_error (attempt_response recovering_service 0)" by simp
  moreover have "transport_error (attempt_response recovering_service 0)" by code_simp
  ultimately show False by simp
qed

text \<open>
  Claim C4, amended: the backend worker returns an Incomplete result, carrying the final
  attempt's extracted text, exactly when the third attempt was answered with status 200
  by a text that fails the acceptance heuristic and neither earlier attempt was
  accepted; the earlier attempts may have been rejected texts or transport errors.
\<close>

theorem incomplete_iff_last_attempt_rejected:
  "fst (generate_code_run svc) = Incomplete t \<longleftrightarrow>
     \<not> backend_reply_accepted (attempt_response svc 0) \<and>
     \<not> backend_reply_accepted (attempt_response svc 1) \<and>
     (\<exists>text. attempt_response svc 2 = Responded 200 text \<and>
             \<not> heuristic_backend (format_generated_code (py_strip text)) \<and>
             t = format_generated_code (py_strip text))"
proof (cases "backend_reply_accepted (attempt_response svc 0)")
  case True
  then have "generate_code_run svc = (Success (backend_reply_text (attempt_response svc 0)), Suc 0)"
    using code_run_first_accepted [of 0 svc] by simp
  with True show ?thesis by simp
next
  case n0: False
  show ?thesis
  proof (cases "backend_reply_accepted (attempt_response svc 1)")
    case True
    with n0 have "generate_code_run svc =
        (Success (backend_reply_text (attempt_response svc (Suc 0))), Suc (Suc 0))"
      using code_run_first_accepted [of "Suc 0" svc] by simp
    with True show ?thesis by simp
  next
    case n1: False
    show ?thesis
    proof (cases "backend_reply_accepted (attempt_response svc 2)")
      case True
      with n0 n1 have "\<forall>j<2. \<not> backend_reply_accepted (attempt_response svc j)"
        by (simp add: less_Suc_eq numeral_2_eq_2)
      with True have "generate_code_run svc =
          (Success (backend_reply_text (attempt_response svc 2)), Suc 2)"
        using code_run_first_accepted [of 2 svc] by simp
      moreover from True have "\<not> (\<exists>text. attempt_response svc 2 = Responded 200 text \<and>
             \<not> heuristic_backend (format_generated_code (py_strip text)) \<and>
             t = format_generated_code (py_strip text))"
        by (auto simp add: backend_reply_accepted_def)
      ultimately show ?thesis by simp
    next
      case n2: False
      from n0 n1 n2 have run: "generate_code_run svc =
         ((case attempt_response svc 2 of
             Responded status text \<Rightarrow>
               if status = 200 then Incomplete (format_generated_code (py_strip text))
               else Failed (''Error generating code: HTTP '' @ str_nat status)
           | Raised e \<Rightarrow> Failed (''Failed to generate code: '' @ e)), 3)"
        using code_run_none_accepted [of svc] by simp
      from n0 n1 n2 show ?thesis
        by (cases "attempt_response svc 2")
           (auto simp add: run backend_reply_accepted_def)
    qed
  qed
qed

theorem incomplete_iff_last_attempt_rejected_witness:
  "fst (generate_code_run recovering_service) = Incomplete ''pass'' \<and>
   transport_error (attempt_response recovering_service 0) \<and>
   transport_error (attempt_response recovering_service 1)"
proof -
  have n0: "\<not> backend_reply_accepted (attempt_response recovering_service 0)" by code_simp
  have n1: "\<not> backend_reply_accepted (attempt_response recovering_service 1)" by code_simp
  have r2: "attempt_response recovering_service 2 = Responded 200 ''pass''" by code_simp
  have h2: "\<not> heuristic_backend (format_generated_code (py_strip ''pass''))" by code_simp
  have f2: "''pass'' = format_generated_code (py_strip ''pass'')" by code_simp
  have t0: "transport_error (attempt_response recovering_service 0)" by code_simp
  have t1: "transport_error (attempt_response recovering_service 1)" by code_simp
  from n0 n1 r2 h2 f2
  have "fst (generate_code_run recovering_service) = Incomplete ''pass''"
    using incomplete_iff_last_attempt_rejected [of recovering_service "''pass''"] by blast
  with t0 t1 show ?thesis by simp
qed

section \<open>Claims about the UI-need detector\<close>

lemma py_lower_append: "py_lower (a @ b) = py_lower a @ py_lower b"
  by (simp add: py_lower_def)

lemma py_in_append_right: "py_in n h \<Longrightarrow> py_in n (h @ extra)"
proof -
  assume "py_in n h"
  then obtain b a where "h = b @ n @ a" by (auto simp: py_in_iff)
  then have "h @ extra = b @ n @ (a @ extra)" by simp
  then show ?thesis unfolding py_in_iff by blast
qed

lemma keyword_in_text_append:
  "list_ex (\<lambda>keyword. py_in (py_lower keyword) (py_lower t)) ks \<Longrightarrow>
   list_ex (\<lambda>keyword. py_in (py_lower keyword) (py_lower (t @ extra))) ks"
  by (induction ks) (auto simp add: py_lower_append py_in_append_right)

lemma chat_interface_has_keyword:
  "list_ex (\<lambda>keyword. py_in (py_lower keyword) (py_join '' '' (flat_values chat_requirements)))
     ui_keywords"
  by code_simp

text \<open>
  Claim C10. The standalone UI-need detector is monotone in the free text: when it
  answers True for a requirements object and a text, it answers True for the same
  object and any extension of the text.
\<close>

theorem ui_detector_monotone_in_text:
  "check_if_ui_needed_standalone requirements_json (Some t) \<Longrightarrow>
   check_if_ui_needed_standalone requirements_json (Some (t @ extra))"
  by (auto simp add: check_if_ui_needed_standalone_def truthy_def keyword_in_text_append
        split: if_splits)

theorem ui_detector_monotone_in_text_witness:
  "check_if_ui_needed_standalone plain_requirements (Some ''a sales dashboard'') \<and>
   check_if_ui_needed_standalone plain_requirements (Some (''a sales dashboard'' @ '' for managers''))"
proof -
  have h: "check_if_ui_needed_standalone plain_requirements (Some ''a sales dashboard'')"
    by code_simp
  from ui_detector_monotone_in_text [OF h, of "'' for managers''"] h show ?thesis by simp
qed

text \<open>
  Claim C2, as stated: for the requirements \<open>{"functionalities": ["chat interface"]}\<close>
  the detector reports that no UI is required. Both copies of the detector answer True:
  the value contains the keyword "interface".
\<close>

theorem chat_interface_needs_ui_counterexample:
  "check_if_ui_needed_standalone chat_requirements None \<and>
   check_if_ui_needed chat_requirements None"
  by code_simp

text \<open>
  Claim C2, amended: for the requirements \<open>{"functionalities": ["chat interface"]}\<close>
  and any free text, both copies of the detector report that a UI is required, so the
  requested roles are Backend and UI: the standalone run sets \<open>needs_ui\<close> and runs the
  UI worker as well as the backend worker.
\<close>

theorem chat_interface_requests_ui:
  "check_if_ui_needed_standalone chat_requirements text \<and>
   check_if_ui_needed chat_requirements text \<and>
   needs_ui (run_standalone env chat_requirements text w) \<and>
   generated_ui (run_standalone env chat_requirements text w)
     = Some (generate_ui_code (ui_service env)) \<and>
   generated_code (run_standalone env chat_requirements text w)
     = generate_code (code_service env)"
proof -
  have d: "check_if_ui_needed_standalone chat_requirements text"
    by (simp add: check_if_ui_needed_standalone_def chat_interface_has_keyword)
  have "check_if_ui_needed chat_requirements text"
    by (simp add: check_if_ui_needed_def chat_interface_has_keyword)
  moreover have "needs_ui (run_standalone env chat_requirements text w)"
    by (simp add: run_standalone_def report_def d Let_def split: option.splits)
  moreover have "generated_ui (run_standalone env chat_requirements text w)
     = Some (generate_ui_code (ui_service env))"
    by (simp add: run_standalone_def report_def d Let_def split: option.splits)
  moreover have "generated_code (run_standalone env chat_requirements text w)
     = generate_code (code_service env)"
    by (simp add: run_standalone_def report_def d Let_def split: option.splits)
  ultimately show ?thesis using d by simp
qed

theorem chat_interface_requests_ui_witness:
  "needs_ui (run_standalone working_env chat_requirements None sample_world) \<and>
   generated_ui (run_standalone working_env chat_requirements None sample_world)
     = Some sample_ui_text \<and>
   generated_code (run_standalone working_env chat_requirements None sample_world)
     = sample_backend_text"
proof -
  have u: "generate_ui_code (ui_service working_env) = sample_ui_text" by code_simp
  have b: "generate_code (code_service working_env) = sample_backend_text" by code_simp
  from chat_interface_requests_ui [of None working_env sample_world] u b
  show ?thesis by simp
qed

section \<open>Claims about project assembly\<close>

lemma occurs_ci_py_in: "occurs_ci h n \<Longrightarrow> py_in (py_lower n) (py_lower h)"
proof -
  assume "occurs_ci h n"
  then obtain b p a where h: "h = b @ p @ a" and p: "py_lower p = py_lower n"
    by (auto simp: occurs_ci_def)
  then have "py_lower h = py_lower b @ py_lower n @ py_lower a"
    by (simp add: py_lower_append)
  then show ?thesis unfolding py_in_iff by blast
qed

lemma library_names_lower:
  "py_lower ''pandas'' = ''pandas''" "py_lower ''numpy'' = ''numpy''"
  "py_lower ''scikit-learn'' = ''scikit-learn''" "py_lower ''sklearn'' = ''sklearn''"
  "py_lower ''matplotlib'' = ''matplotlib''" "py_lower ''pyplot'' = ''pyplot''"
  "py_lower ''requests'' = ''requests''"
  by code_simp+

lemma manifest_lines:
  "split_lines
     (baseline_requirements
      @ (if p1 then ''pandas>=2.0.0'' @ nl else [])
      @ (if p2 then ''numpy>=1.24.0'' @ nl else [])
      @ (if p3 then ''scikit-learn>=1.3.0'' @ nl else [])
      @ (if p4 then ''matplotlib>=3.7.0'' @ nl else [])
      @ (if p5 then ''requests>=2.31.0'' @ nl else []))
   = [''fastapi>=0.100.0'', ''uvicorn>=0.23.0'', ''sqlalchemy>=2.0.0'', ''pydantic>=2.0.0'',
      ''python-dotenv>=1.0.0'']
     @ (if p1 then [''pandas>=2.0.0''] else [])
     @ (if p2 then [''numpy>=1.24.0''] else [])
     @ (if p3 then [''scikit-learn>=1.3.0''] else [])
     @ (if p4 then [''matplotlib>=3.7.0''] else [])
     @ (if p5 then [''requests>=2.31.0''] else [])"
  by (cases p1; cases p2; cases p3; cases p4; cases p5)
     (simp_all add: baseline_requirements_def nl_def)

lemma backend_requirements_lines:
  "split_lines (backend_requirements c) =
     [''fastapi>=0.100.0'', ''uvicorn>=0.23.0'', ''sqlalchemy>=2.0.0'', ''pydantic>=2.0.0'',
      ''python-dotenv>=1.0.0'']
     @ (if py_in ''pandas'' (py_lower c) then [''pandas>=2.0.0''] else [])
     @ (if py_in ''numpy'' (py_lower c) then [''numpy>=1.24.0''] else [])
     @ (if py_in ''scikit-learn'' (py_lower c) \<or> py_in ''sklearn'' (py_lower c)
        then [''scikit-learn>=1.3.0''] else [])
     @ (if py_in ''matplotlib'' (py_lower c) \<or> py_in ''pyplot'' (py_lower c)
        then [''matplotlib>=3.7.0''] else [])
     @ (if py_in ''requests'' (py_lower c) then [''requests>=2.31.0''] else [])"
  unfolding backend_requirements_def by (rule manifest_lines)

lemma integrate_project_some:
  assumes "b \<noteq> []" "u \<noteq> []" "io_ok h"
  shows "integrate_project h sc b u fs =
     (let project_dir = os_path_join (cwd h) (''generated_project_'' @ uuid_hex8 h);
          backend_dir = os_path_join project_dir ''backend'';
          frontend_dir = os_path_join project_dir ''frontend''
      in (Some project_dir,
          [(os_path_join frontend_dir ''config.js'', File (config_js sc)),
           (os_path_join project_dir ''README.md'', File (readme_md sc project_dir)),
           (os_path_join frontend_dir ''package.json'', File (package_json sc)),
           (os_path_join frontend_dir ''index.html'', File (index_html sc)),
           (os_path_join frontend_dir ''App.jsx'', File u),
           (os_path_join backend_dir ''requirements.txt'', File (backend_requirements b)),
           (os_path_join backend_dir ''app.py'', File b),
           (frontend_dir, Dir), (backend_dir, Dir), (project_dir, Dir)] @ fs))"
  using assms
  by (simp add: integrate_project_def truthy_def Let_def makedirs_def write_file_def)

lemma integrate_project_dir:
  "integrate_project h sc b u fs = (Some dir, fs') \<Longrightarrow>
   b \<noteq> [] \<and> u \<noteq> [] \<and> io_ok h \<and>
   dir = os_path_join (cwd h) (''generated_project_'' @ uuid_hex8 h)"
  by (auto simp add: integrate_project_def truthy_def Let_def split: if_splits)

lemma integrate_project_requirements_txt:
  assumes "integrate_project h sc b u fs = (Some dir, fs')"
  shows "requirements_txt dir fs' = Some (backend_requirements b)"
proof -
  from integrate_project_dir [OF assms]
  have ne: "b \<noteq> []" "u \<noteq> []" "io_ok h"
    and dir: "dir = os_path_join (cwd h) (''generated_project_'' @ uuid_hex8 h)"
    by simp_all
  from integrate_project_some [OF ne, of sc fs] assms
  show ?thesis
    by (simp add: Let_def dir requirements_txt_def os_path_join_def)
qed

text \<open>
  Claim C9. When assembly produces a project, its \<open>backend/requirements.txt\<close> holds the
  five baseline framework lines whatever the backend text is, and the pinned line of
  every known library whose name occurs in the backend text, letter case ignored.
\<close>

theorem backend_manifest_has_baseline_and_matched_libraries:
  assumes "integrate_project h sc backend_code ui_code fs = (Some dir, fs')"
  shows "\<exists>manifest. requirements_txt dir fs' = Some manifest \<and>
     ''fastapi>=0.100.0'' \<in> set (split_lines manifest) \<and>
     ''uvicorn>=0.23.0'' \<in> set (split_lines manifest) \<and>
     ''sqlalchemy>=2.0.0'' \<in> set (split_lines manifest) \<and>
     ''pydantic>=2.0.0'' \<in> set (split_lines manifest) \<and>
     ''python-dotenv>=1.0.0'' \<in> set (split_lines manifest) \<and>
     (occurs_ci backend_code ''pandas'' \<longrightarrow> ''pandas>=2.0.0'' \<in> set (split_lines manifest)) \<and>
     (occurs_ci backend_code ''numpy'' \<longrightarrow> ''numpy>=1.24.0'' \<in> set (split_lines manifest)) \<and>
     (occurs_ci backend_code ''scikit-learn'' \<or> occurs_ci backend_code ''sklearn'' \<longrightarrow>
        ''scikit-learn>=1.3.0'' \<in> set (split_lines manifest)) \<and>
     (occurs_ci backend_code ''matplotlib'' \<or> occurs_ci backend_code ''pyplot'' \<longrightarrow>
        ''matplotlib>=3.7.0'' \<in> set (split_lines manifest)) \<and>
     (occurs_ci backend_code ''requests'' \<longrightarrow> ''requests>=2.31.0'' \<in> set (split_lines manifest))"
proof -
  have manifest_file: "requirements_txt dir fs' = Some (backend_requirements backend_code)"
    using assms by (rule integrate_project_requirements_txt)
  have occ: "\<And>n. occurs_ci backend_code n \<Longrightarrow> py_in (py_lower n) (py_lower backend_code)"
    by (rule occurs_ci_py_in)
  have "''fastapi>=0.100.0'' \<in> set (split_lines (backend_requirements backend_code))"
    "''uvicorn>=0.23.0'' \<in> set (split_lines (backend_requirements backend_code))"
    "''sqlalchemy>=2.0.0'' \<in> set (split_lines (backend_requirements backend_code))"
    "''pydantic>=2.0.0'' \<in> set (split_lines (backend_requirements backend_code))"
    "''python-dotenv>=1.0.0'' \<in> set (split_lines (backend_requirements backend_code))"
    by (simp_all add: backend_requirements_lines)
  moreover have "occurs_ci backend_code ''pandas'' \<longrightarrow>
      ''pandas>=2.0.0'' \<in> set (split_lines (backend_requirements backend_code))"
    using occ [of "''pandas''"] by (simp add: backend_requirements_lines library_names_lower)
  moreover have "occurs_ci backend_code ''numpy'' \<longrightarrow>
      ''numpy>=1.24.0'' \<in> set (split_lines (backend_requirements backend_code))"
    using occ [of "''numpy''"] by (simp add: backend_requirements_lines library_names_lower)
  moreover have "occurs_ci backend_code ''scikit-learn'' \<or> occurs_ci backend_code ''sklearn'' \<longrightarrow>
      ''scikit-learn>=1.3.0'' \<in> set (split_lines (backend_requirements backend_code))"
    using occ [of "''scikit-learn''"] occ [of "''sklearn''"]
    by (auto simp add: backend_requirements_lines library_names_lower)
  moreover have "occurs_ci backend_code ''matplotlib'' \<or> occurs_ci backend_code ''pyplot'' \<longrightarrow>
      ''matplotlib>=3.7.0'' \<in> set (split_lines (backend_requirements backend_code))"
    using occ [of "''matplotlib''"] occ [of "''pyplot''"]
    by (auto simp add: backend_requirements_lines library_names_lower)
  moreover have "occurs_ci backend_code ''requests'' \<longrightarrow>
      ''requests>=2.31.0'' \<in> set (split_lines (backend_requirements backend_code))"
    using occ [of "''requests''"] by (simp add: backend_requirements_lines library_names_lower)
  ultimately show ?thesis using manifest_file by blast
qed

theorem backend_manifest_has_baseline_and_matched_libraries_witness:
  "\<exists>manifest.
     requirements_txt ''/work/generated_project_f50b64a8''
       (snd (integrate_project sample_host sample_scaffold pandas_backend_text sample_ui_text []))
       = Some manifest \<and>
     ''fastapi>=0.100.0'' \<in> set (split_lines manifest) \<and>
     ''pandas>=2.0.0'' \<in> set (split_lines manifest)"
proof -
  have d: "fst (integrate_project sample_host sample_scaffold pandas_backend_text sample_ui_text [])
      = Some ''/work/generated_project_f50b64a8''"
    by code_simp
  then have run: "integrate_project sample_host sample_scaffold pandas_backend_text sample_ui_text []
      = (Some ''/work/generated_project_f50b64a8'',
         snd (integrate_project sample_host sample_scaffold pandas_backend_text sample_ui_text []))"
    by (simp add: prod_eq_iff)
  have "pandas_backend_text =
      ''import '' @ ''Pandas'' @ ('' as pd'' @ nl @ ''def rows(): return pd.DataFrame()'')"
    by (simp add: pandas_backend_text_def)
  moreover have "py_lower ''Pandas'' = py_lower ''pandas''" by code_simp
  ultimately have occ: "occurs_ci pandas_backend_text ''pandas''"
    unfolding occurs_ci_def by blast
  from backend_manifest_has_baseline_and_matched_libraries [OF run] occ
  show ?thesis by blast
qed

text \<open>
  Claim C3: the assembler never fails; also for an absent or empty UI text it returns
  a layout. The pipeline relies on this: for a run that needs no UI,
  \<open>run_standalone\<close> lets the run through (\<open>not needs_ui or generated_ui\<close>) and
  passes \<open>generated_ui or ""\<close>, and the other assembly paths of the repository
  build a project without a UI text. \<open>integrate_project\<close> misses it: with the empty
  UI text it returns \<open>None\<close> and writes nothing, so every run that needs no UI and
  has a backend text calls the assembler, gets no project and deploys nothing.
\<close>

theorem assembler_refuses_backend_only_project:
  "integrate_project h sc backend_code [] fs = (None, fs) \<and>
   (\<not> check_if_ui_needed_standalone req_json req_text \<and>
    generate_code (code_service env) \<noteq> [] \<longrightarrow>
      generated_code (run_standalone env req_json req_text w)
        = generate_code (code_service env) \<and>
      generated_ui (run_standalone env req_json req_text w) = None \<and>
      assembler_called (run_standalone env req_json req_text w) \<and>
      project_dir (run_standalone env req_json req_text w) = None \<and>
      deployment (run_standalone env req_json req_text w) = None \<and>
      files (machine_after (run_standalone env req_json req_text w)) = files w)"
proof -
  have refused: "integrate_project h sc backend_code [] fs = (None, fs)"
    by (simp add: integrate_project_def truthy_def)
  have run: "\<not> check_if_ui_needed_standalone req_json req_text \<and>
    generate_code (code_service env) \<noteq> [] \<longrightarrow>
      generated_code (run_standalone env req_json req_text w)
        = generate_code (code_service env) \<and>
      generated_ui (run_standalone env req_json req_text w) = None \<and>
      assembler_called (run_standalone env req_json req_text w) \<and>
      project_dir (run_standalone env req_json req_text w) = None \<and>
      deployment (run_standalone env req_json req_text w) = None \<and>
      files (machine_after (run_standalone env req_json req_text w)) = files w"
    by (simp add: run_standalone_def report_def truthy_def integrate_project_def Let_def)
  from refused run show ?thesis by (rule conjI)
qed

theorem assembler_refuses_backend_only_project_witness:
  "integrate_project sample_host sample_scaffold sample_backend_text [] [] = (None, []) \<and>
   generated_code (run_standalone working_env plain_requirements None sample_world)
     = sample_backend_text \<and>
   assembler_called (run_standalone working_env plain_requirements None sample_world) \<and>
   project_dir (run_standalone working_env plain_requirements None sample_world) = None \<and>
   deployment (run_standalone working_env plain_requirements None sample_world) = None"
proof -
  have no_ui: "\<not> check_if_ui_needed_standalone plain_requirements None" by code_simp
  have code: "generate_code (code_service working_env) = sample_backend_text" by code_simp
  have ne: "sample_backend_text \<noteq> []" by (simp add: sample_backend_text_def)
  note t = assembler_refuses_backend_only_project
    [of sample_host sample_scaffold sample_backend_text "[]" plain_requirements None
        working_env sample_world]
  from t no_ui code ne show ?thesis by simp
qed

section \<open>Claims about deployment\<close>

lemma stop_current_services_files [simp]:
  "files (snd (stop_current_services dw)) = files (snd dw)"
  by (simp add: stop_current_services_def Let_def stop_proc_def ensure_ports_available_def
        split: option.splits)

lemma stop_current_services_next_pid [simp]:
  "next_pid (snd (stop_current_services dw)) = next_pid (snd dw)"
  by (simp add: stop_current_services_def Let_def stop_proc_def ensure_ports_available_def
        split: option.splits)

lemma stop_current_services_handles [simp]:
  "backend_proc (fst (stop_current_services dw)) = None"
  "frontend_proc (fst (stop_current_services dw)) = None"
  by (simp_all add: stop_current_services_def Let_def)

lemma stop_current_services_stops_backend:
  "backend_proc (fst dw) = Some pid \<Longrightarrow> \<not> running (snd (stop_current_services dw)) pid"
  by (auto simp add: stop_current_services_def Let_def stop_proc_def ensure_ports_available_def
        running_def split: option.splits)

lemma deploy_project_launching:
  assumes "layout_ready (files (snd dw)) dir" and "deploy_io_error e = None"
    and "backend_launch e = StaysUp"
  shows "deploy_project e sc dir dw =
     (let dw1 = stop_current_services dw;
          d1 = fst dw1; w1 = snd dw1;
          backend_dir = os_path_join dir ''backend'';
          frontend_dir = os_path_join dir ''frontend'';
          requirements_file = os_path_join backend_dir ''requirements.txt'';
          w2 = (if \<not> os_path_exists (files w1) requirements_file
                then w1\<lparr>files := write_file (files w1) requirements_file baseline_requirements\<rparr>
                else w1);
          frontend_index = os_path_join frontend_dir ''index.html'';
          w3 = (if \<not> os_path_exists (files w2) frontend_index
                then (if os_path_exists (files w2) (os_path_join frontend_dir ''App.jsx'')
                      then w2\<lparr>files := write_file (files w2) frontend_index (index_html sc)\<rparr>
                      else w2)
                else w2);
          bpid = next_pid (snd dw);
          w4 = w3\<lparr>procs := (bpid, 8000) # procs w3, next_pid := Suc bpid\<rparr>;
          d2 = d1\<lparr>backend_proc := Some bpid\<rparr>
      in case frontend_launch e of
           SpawnFails ex \<Rightarrow> (DeployError (''Error deploying project: '' @ ex), d2, w4)
         | ExitsEarly err \<Rightarrow>
             (DeployError (''Frontend server failed to start: '' @ take 500 err),
              d2\<lparr>frontend_proc := Some (Suc bpid)\<rparr>, w4\<lparr>next_pid := Suc (Suc bpid)\<rparr>)
         | StaysUp \<Rightarrow>
             (DeploySuccess ''http://localhost:8000'' ''http://localhost:3000'' dir,
              d2\<lparr>frontend_proc := Some (Suc bpid)\<rparr>,
              w4\<lparr>procs := (Suc bpid, 3000) # procs w4, next_pid := Suc (Suc bpid)\<rparr>))"
  using assms
  by (simp add: deploy_project_def layout_ready_def Let_def popen_def poll_exited_def
        stderr_text_def split: launch.splits)

lemma deploy_project_not_ready:
  "\<not> layout_ready (files (snd dw)) dir \<Longrightarrow>
   \<exists>reason. fst (deploy_project e sc dir dw) = DeployError reason"
proof -
  assume n: "\<not> layout_ready (files (snd dw)) dir"
  show ?thesis
  proof (cases "os_path_exists (files (snd dw)) dir")
    case False
    then show ?thesis by (simp add: deploy_project_def)
  next
    case p: True
    show ?thesis
    proof (cases "os_path_exists (files (snd dw)) (os_path_join dir ''backend'')")
      case False
      with p show ?thesis by (simp add: deploy_project_def Let_def)
    next
      case b: True
      show ?thesis
      proof (cases "os_path_exists (files (snd dw)) (os_path_join dir ''frontend'')")
        case False
        with p b show ?thesis by (simp add: deploy_project_def Let_def)
      next
        case f: True
        with n p b
        have "\<not> os_path_exists (files (snd dw))
                 (os_path_join (os_path_join dir ''backend'') ''app.py'')"
          by (simp add: layout_ready_def)
        with p b f show ?thesis by (simp add: deploy_project_def Let_def)
      qed
    qed
  qed
qed

lemma deploy_project_io_error:
  "layout_ready (files (snd dw)) dir \<Longrightarrow> deploy_io_error e = Some ex \<Longrightarrow>
   \<exists>reason. fst (deploy_project e sc dir dw) = DeployError reason"
  by (simp add: deploy_project_def layout_ready_def Let_def)

lemma deploy_project_backend_fails:
  "layout_ready (files (snd dw)) dir \<Longrightarrow> deploy_io_error e = None \<Longrightarrow>
   backend_launch e \<noteq> StaysUp \<Longrightarrow>
   \<exists>reason. fst (deploy_project e sc dir dw) = DeployError reason"
  by (cases "backend_launch e")
     (simp_all add: deploy_project_def layout_ready_def Let_def popen_def poll_exited_def)

text \<open>
  Claim C5, as stated: when a step of a deploy call fails, every process started in that
  call is stopped before deploy returns Failure. With a frontend process that exits
  during its settle period, the backend process started by the call (pid 100, not
  running before) is still running when deploy has returned its error.
\<close>

theorem backend_left_running_counterexample:
  "fst (deploy_project frontend_dies sample_scaffold ''/p'' (idle_deployer, empty_frontend_world))
     = DeployError ''Frontend server failed to start: Address already in use'' \<and>
   \<not> running empty_frontend_world 100 \<and>
   running (snd (snd (deploy_project frontend_dies sample_scaffold ''/p''
                        (idle_deployer, empty_frontend_world)))) 100 \<and>
   backend_proc (fst (snd (deploy_project frontend_dies sample_scaffold ''/p''
                        (idle_deployer, empty_frontend_world)))) = Some 100"
  by code_simp

text \<open>
  Claim C5, amended: when the frontend step of a deploy call fails (the frontend process
  exits during its settle period, or cannot be spawned) after the backend process
  stayed up, deploy returns Failure without stopping the backend process it started:
  that process is still running and stays in the deployer's backend handle, and it is
  stopped by the next \<open>_stop_current_services\<close> (the first step of a later deploy, or
  \<open>stop\<close>).
\<close>

theorem frontend_failure_leaves_backend_running:
  assumes "layout_ready (files (snd dw)) dir" and "deploy_io_error e = None"
    and "backend_launch e = StaysUp" and "frontend_launch e \<noteq> StaysUp"
  shows "(\<exists>reason. fst (deploy_project e sc dir dw) = DeployError reason) \<and>
     running (snd (snd (deploy_project e sc dir dw))) (next_pid (snd dw)) \<and>
     backend_proc (fst (snd (deploy_project e sc dir dw))) = Some (next_pid (snd dw)) \<and>
     \<not> running (snd (stop_current_services (snd (deploy_project e sc dir dw))))
         (next_pid (snd dw))"
proof -
  note run = deploy_project_launching [OF assms(1-3), of sc]
  have err: "\<exists>reason. fst (deploy_project e sc dir dw) = DeployError reason"
    using assms(4) by (cases "frontend_launch e") (simp_all add: run Let_def)
  have up: "running (snd (snd (deploy_project e sc dir dw))) (next_pid (snd dw))"
    using assms(4) by (cases "frontend_launch e") (simp_all add: run Let_def running_def)
  have handle: "backend_proc (fst (snd (deploy_project e sc dir dw))) = Some (next_pid (snd dw))"
    using assms(4) by (cases "frontend_launch e") (simp_all add: run Let_def)
  from handle
  have "\<not> running (snd (stop_current_services (snd (deploy_project e sc dir dw))))
         (next_pid (snd dw))"
    by (rule stop_current_services_stops_backend)
  with err up handle show ?thesis by simp
qed

theorem frontend_failure_leaves_backend_running_witness:
  "(\<exists>reason. fst (deploy_project frontend_dies sample_scaffold ''/p''
                    (idle_deployer, empty_frontend_world)) = DeployError reason) \<and>
   running (snd (snd (deploy_project frontend_dies sample_scaffold ''/p''
                        (idle_deployer, empty_frontend_world)))) 100"
proof -
  have r: "layout_ready (files (snd (idle_deployer, empty_frontend_world))) ''/p''"
    by code_simp
  have io: "deploy_io_error frontend_dies = None" by (simp add: frontend_dies_def)
  have b: "backend_launch frontend_dies = StaysUp" by (simp add: frontend_dies_def)
  have f: "frontend_launch frontend_dies \<noteq> StaysUp" by (simp add: frontend_dies_def)
  have p: "next_pid (snd (idle_deployer, empty_frontend_world)) = 100"
    by (simp add: empty_frontend_world_def)
  from frontend_failure_leaves_backend_running [OF r io b f, of sample_scaffold] p
  show ?thesis by simp
qed

text \<open>
  Claim C6, as stated: the frontend process is launched only if a frontend artifact
  exists, and a layout with only a backend artifact deploys successfully with only the
  backend service reported. A layout without a frontend directory is refused; a layout
  with an empty frontend directory (no \<open>App.jsx\<close>) gets a frontend process all the
  same, and both endpoints are reported.
\<close>

theorem backend_only_layout_counterexample:
  "fst (deploy_project all_up sample_scaffold ''/p'' (idle_deployer, backend_only_world))
     = DeployError ''Frontend directory not found: /p/frontend'' \<and>
   \<not> os_path_exists (files empty_frontend_world) ''/p/frontend/App.jsx'' \<and>
   fst (deploy_project all_up sample_scaffold ''/p'' (idle_deployer, empty_frontend_world))
     = DeploySuccess ''http://localhost:8000'' ''http://localhost:3000'' ''/p'' \<and>
   frontend_proc (fst (snd (deploy_project all_up sample_scaffold ''/p''
                              (idle_deployer, empty_frontend_world)))) = Some 101 \<and>
   running (snd (snd (deploy_project all_up sample_scaffold ''/p''
                        (idle_deployer, empty_frontend_world)))) 101"
  by code_simp

text \<open>
  Claim C6, amended: deploy needs the frontend directory: a layout without it is refused
  with Failure before any process is launched. When the project, backend and frontend
  directories and \<open>backend/app.py\<close> exist and both processes stay up, the frontend
  process is launched whether or not a frontend artifact exists, and deploy succeeds
  reporting both fixed endpoints; every successful deploy reports both endpoints and has
  launched the frontend process.
\<close>

theorem deploy_needs_frontend_directory_and_always_launches_frontend:
  "(os_path_exists (files (snd dw)) dir \<and>
    \<not> os_path_exists (files (snd dw)) (os_path_join dir ''frontend'') \<longrightarrow>
      (\<exists>reason. fst (deploy_project e sc dir dw) = DeployError reason) \<and>
      next_pid (snd (snd (deploy_project e sc dir dw))) = next_pid (snd dw) \<and>
      backend_proc (fst (snd (deploy_project e sc dir dw))) = None \<and>
      frontend_proc (fst (snd (deploy_project e sc dir dw))) = None) \<and>
   (layout_ready (files (snd dw)) dir \<and> deploy_io_error e = None \<and>
    backend_launch e = StaysUp \<and> frontend_launch e = StaysUp \<longrightarrow>
      fst (deploy_project e sc dir dw)
        = DeploySuccess ''http://localhost:8000'' ''http://localhost:3000'' dir \<and>
      frontend_proc (fst (snd (deploy_project e sc dir dw))) = Some (Suc (next_pid (snd dw))) \<and>
      running (snd (snd (deploy_project e sc dir dw))) (Suc (next_pid (snd dw)))) \<and>
   (\<forall>b f p. fst (deploy_project e sc dir dw) = DeploySuccess b f p \<longrightarrow>
      b = ''http://localhost:8000'' \<and> f = ''http://localhost:3000'' \<and>
      frontend_proc (fst (snd (deploy_project e sc dir dw))) \<noteq> None)"
proof -
  have refused: "os_path_exists (files (snd dw)) dir \<and>
    \<not> os_path_exists (files (snd dw)) (os_path_join dir ''frontend'') \<longrightarrow>
      (\<exists>reason. fst (deploy_project e sc dir dw) = DeployError reason) \<and>
      next_pid (snd (snd (deploy_project e sc dir dw))) = next_pid (snd dw) \<and>
      backend_proc (fst (snd (deploy_project e sc dir dw))) = None \<and>
      frontend_proc (fst (snd (deploy_project e sc dir dw))) = None"
    by (simp add: deploy_project_def Let_def)
  have launched: "layout_ready (files (snd dw)) dir \<and> deploy_io_error e = None \<and>
    backend_launch e = StaysUp \<and> frontend_launch e = StaysUp \<longrightarrow>
      fst (deploy_project e sc dir dw)
        = DeploySuccess ''http://localhost:8000'' ''http://localhost:3000'' dir \<and>
      frontend_proc (fst (snd (deploy_project e sc dir dw))) = Some (Suc (next_pid (snd dw))) \<and>
      running (snd (snd (deploy_project e sc dir dw))) (Suc (next_pid (snd dw)))"
  proof
    assume a: "layout_ready (files (snd dw)) dir \<and> deploy_io_error e = None \<and>
      backend_launch e = StaysUp \<and> frontend_launch e = StaysUp"
    then have r: "layout_ready (files (snd dw)) dir" and io: "deploy_io_error e = None"
      and b: "backend_launch e = StaysUp" and f: "frontend_launch e = StaysUp"
      by simp_all
    show "fst (deploy_project e sc dir dw)
        = DeploySuccess ''http://localhost:8000'' ''http://localhost:3000'' dir \<and>
      frontend_proc (fst (snd (deploy_project e sc dir dw))) = Some (Suc (next_pid (snd dw))) \<and>
      running (snd (snd (deploy_project e sc dir dw))) (Suc (next_pid (snd dw)))"
      by (simp add: deploy_project_launching [OF r io b, of sc] f Let_def running_def)
  qed
  have success: "\<forall>b f p. fst (deploy_project e sc dir dw) = DeploySuccess b f p \<longrightarrow>
      b = ''http://localhost:8000'' \<and> f = ''http://localhost:3000'' \<and>
      frontend_proc (fst (snd (deploy_project e sc dir dw))) \<noteq> None"
  proof (intro allI impI)
    fix b f p
    assume ok: "fst (deploy_project e sc dir dw) = DeploySuccess b f p"
    have r: "layout_ready (files (snd dw)) dir"
      using ok deploy_project_not_ready [of dw dir e sc] by auto
    have io: "deploy_io_error e = None"
      using ok deploy_project_io_error [OF r, of e _ sc] by (cases "deploy_io_error e") auto
    have bl: "backend_launch e = StaysUp"
      using ok deploy_project_backend_fails [OF r io, of sc] by auto
    note run = deploy_project_launching [OF r io bl, of sc]
    have fl: "frontend_launch e = StaysUp"
      using ok by (cases "frontend_launch e") (simp_all add: run Let_def)
    have res: "fst (deploy_project e sc dir dw)
        = DeploySuccess ''http://localhost:8000'' ''http://localhost:3000'' dir"
      by (simp add: run fl Let_def)
    have fp: "frontend_proc (fst (snd (deploy_project e sc dir dw))) \<noteq> None"
      by (simp add: run fl Let_def)
    from ok res have "b = ''http://localhost:8000'' \<and> f = ''http://localhost:3000''"
      by simp
    with fp show "b = ''http://localhost:8000'' \<and> f = ''http://localhost:3000'' \<and>
      frontend_proc (fst (snd (deploy_project e sc dir dw))) \<noteq> None"
      by simp
  qed
  from refused launched success show ?thesis by blast
qed

theorem deploy_needs_frontend_directory_and_always_launches_frontend_witness:
  "(\<exists>reason. fst (deploy_project all_up sample_scaffold ''/p'' (idle_deployer, backend_only_world))
       = DeployError reason) \<and>
   fst (deploy_project all_up sample_scaffold ''/p'' (idle_deployer, empty_frontend_world))
     = DeploySuccess ''http://localhost:8000'' ''http://localhost:3000'' ''/p'' \<and>
   frontend_proc (fst (snd (deploy_project all_up sample_scaffold ''/p''
                              (idle_deployer, empty_frontend_world)))) = Some 101"
proof -
  have e1: "os_path_exists (files (snd (idle_deployer, backend_only_world))) ''/p''"
    by code_simp
  have e2: "\<not> os_path_exists (files (snd (idle_deployer, backend_only_world)))
               (os_path_join ''/p'' ''frontend'')"
    by code_simp
  have r: "layout_ready (files (snd (idle_deployer, empty_frontend_world))) ''/p''"
    by code_simp
  have up: "deploy_io_error all_up = None" "backend_launch all_up = StaysUp"
    "frontend_launch all_up = StaysUp"
    by (simp_all add: all_up_def)
  have p: "next_pid (snd (idle_deployer, empty_frontend_world)) = 100"
    by (simp add: empty_frontend_world_def)
  note t1 = deploy_needs_frontend_directory_and_always_launches_frontend
    [of "(idle_deployer, backend_only_world)" "''/p''" all_up sample_scaffold]
  note t2 = deploy_needs_frontend_directory_and_always_launches_frontend
    [of "(idle_deployer, empty_frontend_world)" "''/p''" all_up sample_scaffold]
  from t1 e1 e2
  have "\<exists>reason. fst (deploy_project all_up sample_scaffold ''/p''
          (idle_deployer, backend_only_world)) = DeployError reason"
    by blast
  moreover from t2 r up
  have "fst (deploy_project all_up sample_scaffold ''/p'' (idle_deployer, empty_frontend_world))
       = DeploySuccess ''http://localhost:8000'' ''http://localhost:3000'' ''/p'' \<and>
     frontend_proc (fst (snd (deploy_project all_up sample_scaffold ''/p''
                              (idle_deployer, empty_frontend_world))))
       = Some (Suc (next_pid (snd (idle_deployer, empty_frontend_world))))"
    by blast
  ultimately show ?thesis using p by simp
qed

section \<open>Claim about the pipeline\<close>

lemma generate_code_run_service_down:
  "\<forall>i opts. svc i opts = Raised msg \<Longrightarrow>
   generate_code_run svc = (Failed (''Failed to generate code: '' @ msg), 3)"
  by (simp add: generate_code_run_unfold)

text \<open>
  Claim C1: a run whose backend worker result is Failed is aborted before assembly.
  In the standalone pipeline the worker reports its failure as a non-empty message, so
  the test \<open>if generated_code and ...\<close> lets the run through: when the completion
  service raises on every backend attempt, a UI is required and the UI worker returns
  a non-empty text, \<open>integrate_project\<close> is called with the error message as the
  backend text, and the project it assembles is handed to \<open>deploy_project\<close>.
\<close>

theorem failed_backend_is_assembled_and_deployed:
  assumes "\<forall>i opts. code_service env i opts = Raised msg"
    and "check_if_ui_needed_standalone req_json req_text"
    and "generate_ui_code (ui_service env) \<noteq> []"
    and "io_ok (machine env)"
  shows "fst (generate_code_run (code_service env))
       = Failed (''Failed to generate code: '' @ msg) \<and>
     generated_code (run_standalone env req_json req_text w)
       = ''Failed to generate code: '' @ msg \<and>
     assembler_called (run_standalone env req_json req_text w) \<and>
     project_dir (run_standalone env req_json req_text w)
       = Some (os_path_join (cwd (machine env)) (''generated_project_'' @ uuid_hex8 (machine env))) \<and>
     deployment (run_standalone env req_json req_text w) \<noteq> None"
proof -
  have run: "generate_code_run (code_service env)
      = (Failed (''Failed to generate code: '' @ msg), 3)"
    using assms(1) by (rule generate_code_run_service_down)
  then have code: "generate_code (code_service env) = ''Failed to generate code: '' @ msg"
    by (simp add: generate_code_def)
  have ne: "''Failed to generate code: '' @ msg \<noteq> []" by simp
  note ip = integrate_project_some [OF ne assms(3) assms(4), of "templates env" "files w"]
  have "generated_code (run_standalone env req_json req_text w)
       = ''Failed to generate code: '' @ msg"
    using assms(2,3)
    by (simp add: run_standalone_def report_def code truthy_def ip Let_def os_path_exists_def
          del: append.simps)
  moreover have "assembler_called (run_standalone env req_json req_text w)"
    using assms(2,3)
    by (simp add: run_standalone_def report_def code truthy_def ip Let_def os_path_exists_def
          del: append.simps)
  moreover have "project_dir (run_standalone env req_json req_text w)
       = Some (os_path_join (cwd (machine env)) (''generated_project_'' @ uuid_hex8 (machine env)))"
    using assms(2,3)
    by (simp add: run_standalone_def report_def code truthy_def ip Let_def os_path_exists_def
          del: append.simps)
  moreover have "deployment (run_standalone env req_json req_text w) \<noteq> None"
    using assms(2,3)
    by (simp add: run_standalone_def report_def code truthy_def ip Let_def os_path_exists_def
          del: append.simps)
  ultimately show ?thesis using run by simp
qed

theorem failed_backend_is_assembled_and_deployed_witness:
  "fst (generate_code_run down_service) = Failed ''Failed to generate code: connection refused'' \<and>
   assembler_called (run_standalone failing_backend_env dashboard_requirements None sample_world) \<and>
   project_dir (run_standalone failing_backend_env dashboard_requirements None sample_world)
     = Some ''/work/generated_project_f50b64a8'' \<and>
   deployment (run_standalone failing_backend_env dashboard_requirements None sample_world)
     \<noteq> None"
proof -
  have down: "\<forall>i opts. code_service failing_backend_env i opts = Raised ''connection refused''"
    by (simp add: failing_backend_env_def down_service_def)
  have ui: "check_if_ui_needed_standalone dashboard_requirements None" by code_simp
  have "generate_ui_code ui_service_ok = sample_ui_text" by code_simp
  then have ui_text: "generate_ui_code (ui_service failing_backend_env) \<noteq> []"
    by (simp add: failing_backend_env_def sample_ui_text_def)
  have io: "io_ok (machine failing_backend_env)"
    by (simp add: failing_backend_env_def sample_host_def)
  have svc: "code_service failing_backend_env = down_service"
    by (simp add: failing_backend_env_def)
  have dir: "os_path_join (cwd (machine failing_backend_env))
       (''generated_project_'' @ uuid_hex8 (machine failing_backend_env))
      = ''/work/generated_project_f50b64a8''"
    by (simp add: failing_backend_env_def sample_host_def os_path_join_def)
  from failed_backend_is_assembled_and_deployed [OF down ui ui_text io, of sample_world]
  show ?thesis unfolding svc dir by simp
qed

end
